theory Spec2Isabelle
  imports Main "HOL-Library.Sublist"
begin

section \<open>Strings and the string methods the sources call\<close>

text \<open>
  A JavaScript string is a sequence of code units; it is modelled as a \<open>string\<close>
  (a list of \<open>char\<close>), one \<open>char\<close> per code unit, for code units below 256.
  In that range the white space class \<^verbatim>\<open>\s\<close> of a regular expression holds
  TAB, LF, VT, FF, CR, SPACE and NBSP, and the dot does not match LF and CR.
\<close>

definition is_space :: "char \<Rightarrow> bool" where
  "is_space c = (c \<in> set [CHR 0x09, CHR 0x0A, CHR 0x0B, CHR 0x0C, CHR 0x0D, CHR 0x20, CHR 0xA0])"

definition is_line_terminator :: "char \<Rightarrow> bool" where
  "is_line_terminator c = (c = CHR 0x0A \<or> c = CHR 0x0D)"

text \<open>\<^verbatim>\<open>s.endsWith(t)\<close>, \<^verbatim>\<open>s.includes(t)\<close>, \<^verbatim>\<open>s.split(sep)\<close> for a separator of
  one character (the result always has at least one piece), and \<^verbatim>\<open>xs.pop()\<close>, which is
  \<^verbatim>\<open>undefined\<close> on an empty array.\<close>

definition endsWith :: "string \<Rightarrow> string \<Rightarrow> bool" where
  "endsWith s t = suffix t s"

fun js_includes :: "string \<Rightarrow> string \<Rightarrow> bool" where
  "js_includes [] t = (t = [])"
| "js_includes (c # cs) t = (prefix t (c # cs) \<or> js_includes cs t)"

fun js_split :: "char \<Rightarrow> string \<Rightarrow> string list" where
  "js_split sep [] = [[]]"
| "js_split sep (c # cs) =
     (if c = sep then [] # js_split sep cs
      else (case js_split sep cs of
              [] \<Rightarrow> [[c]]
            | p # ps \<Rightarrow> (c # p) # ps))"

definition pop :: "'a list \<Rightarrow> 'a option" where
  "pop xs = (if xs = [] then None else Some (last xs))"

section \<open>Regular expressions\<close>

text \<open>
  The regular expressions of the sources are sequences of literals, alternatives of
  literals and quantified character classes. \<open>Rep cls m greedy\<close> is the class \<open>cls\<close>
  repeated at least \<open>m\<close> times, greedy (\<^verbatim>\<open>*\<close>, \<^verbatim>\<open>+\<close>) or lazy (\<^verbatim>\<open>*?\<close>).
  \<open>rx_match r s\<close> matches \<open>r\<close> at the start of \<open>s\<close> as a backtracking matcher does: a
  greedy quantifier tries the longest run first, a lazy one the shortest, an alternative
  its branches from left to right. The result gives the text each atom matched (the
  capture groups are among them) and the text behind the match.
\<close>

datatype atom =
    Lit string
  | Alt "string list"
  | Rep "char \<Rightarrow> bool" nat bool

fun first_some :: "('a \<Rightarrow> 'b option) \<Rightarrow> 'a list \<Rightarrow> 'b option" where
  "first_some f [] = None"
| "first_some f (x # xs) = (case f x of Some y \<Rightarrow> Some y | None \<Rightarrow> first_some f xs)"

fun rx_match :: "atom list \<Rightarrow> string \<Rightarrow> (string list \<times> string) option" where
  "rx_match [] s = Some ([], s)"
| "rx_match (Lit l # r) s =
     (if prefix l s then
        (case rx_match r (drop (length l) s) of
           None \<Rightarrow> None
         | Some (ps, rest) \<Rightarrow> Some (l # ps, rest))
      else None)"
| "rx_match (Alt ls # r) s =
     first_some (\<lambda>l. if prefix l s then
                         (case rx_match r (drop (length l) s) of
                            None \<Rightarrow> None
                          | Some (ps, rest) \<Rightarrow> Some (l # ps, rest))
                       else None) ls"
| "rx_match (Rep cls m greedy # r) s =
     (let longest = length (takeWhile cls s);
          counts = (if greedy then rev [m ..< Suc longest] else [m ..< Suc longest])
      in first_some (\<lambda>k. case rx_match r (drop k s) of
                            None \<Rightarrow> None
                          | Some (ps, rest) \<Rightarrow> Some (take k s # ps, rest)) counts)"

text \<open>
  A global scan (\<^verbatim>\<open>replace\<close> with the \<^verbatim>\<open>g\<close> flag) goes through the string from
  left to right: where the expression matches, the match is one segment and the scan goes
  on behind it; elsewhere the character is kept. All matches are found before any of them
  is replaced. After an empty match the scan moves on by one character.
\<close>

datatype seg = Chr char | Matched "string list"

function rx_scan :: "atom list \<Rightarrow> string \<Rightarrow> seg list" where
  "rx_scan r [] = (case rx_match r [] of None \<Rightarrow> [] | Some (ps, rest) \<Rightarrow> [Matched ps])"
| "rx_scan r (c # cs) =
     (case rx_match r (c # cs) of
        None \<Rightarrow> Chr c # rx_scan r cs
      | Some (ps, rest) \<Rightarrow>
          if concat ps = [] then Matched ps # Chr c # rx_scan r cs
          else Matched ps # rx_scan r (drop (length (concat ps)) (c # cs)))"
  by pat_completeness auto
termination
  by (relation "measure (\<lambda>(r, s). length s)") auto

text \<open>The text of the input a segment stands for.\<close>

fun seg_text :: "seg \<Rightarrow> string" where
  "seg_text (Chr c) = [c]"
| "seg_text (Matched ps) = concat ps"

text \<open>\<^verbatim>\<open>s.match(r)\<close> without the \<^verbatim>\<open>g\<close> flag: the first position where \<open>r\<close> matches.\<close>

fun rx_search :: "atom list \<Rightarrow> string \<Rightarrow> string list option" where
  "rx_search r [] = map_option fst (rx_match r [])"
| "rx_search r (c # cs) =
     (case rx_match r (c # cs) of
        Some (ps, rest) \<Rightarrow> Some ps
      | None \<Rightarrow> rx_search r cs)"

text \<open>\<^verbatim>\<open>s.replace(r, '')\<close> with the \<^verbatim>\<open>g\<close> flag: every match found by the scan is deleted.\<close>

definition rx_remove_all :: "atom list \<Rightarrow> string \<Rightarrow> string" where
  "rx_remove_all r s =
     concat (map (\<lambda>g. case g of Chr c \<Rightarrow> [c] | Matched ps \<Rightarrow> []) (rx_scan r s))"

section \<open>The asset path matcher: \<open>findFileInMap\<close>\<close>

text \<open>
  The \<^verbatim>\<open>Map<string, File>\<close> is the list of its entries in iteration (insertion) order;
  its keys are distinct. \<^verbatim>\<open>fileMap.has\<close> and \<^verbatim>\<open>fileMap.get\<close> are \<open>map_of\<close>, a
  \<^verbatim>\<open>for ... of\<close> loop that returns at the first hit is \<open>find\<close>. The result \<open>None\<close> is
  \<^verbatim>\<open>undefined\<close>.

  \<^verbatim>\<open>/^(package:\/\/|file:\/\/)/\<close> is anchored and not global: it can match at the start
  of the target only, and \<^verbatim>\<open>replace\<close> removes that one match.
\<close>

text \<open>
  The only place where the sources build such a map is \<^verbatim>\<open>getAllFiles\<close>. It walks the
  dropped items with a queue, first in first out: a file entry is asked for its file,
  which is stored with \<^verbatim>\<open>fileMap.set\<close> under the entry's \<^verbatim>\<open>fullPath\<close> less one leading
  slash; a directory entry is read and its entries join the queue; any other entry is
  passed over. \<^verbatim>\<open>Map.prototype.set\<close> puts a new key at the end and keeps the place of a
  key it overwrites.

  An entry is given with what the browser answers for it: a file entry with its file, a
  directory entry with the entries \<^verbatim>\<open>readAllEntries\<close> collects from its reader, or either
  of them failing (the callback \<^verbatim>\<open>reject\<close> is called; the promise \<^verbatim>\<open>getAllFiles\<close> returns is
  then rejected, the result \<open>None\<close>). An item of the list is the entry
  \<^verbatim>\<open>webkitGetAsEntry()\<close> returns for it, or \<open>None\<close> for \<^verbatim>\<open>null\<close>.
\<close>

definition file_key :: "string \<Rightarrow> string" where
  "file_key fullPath = (if prefix ''/'' fullPath then drop 1 fullPath else fullPath)"

fun map_set :: "'k \<Rightarrow> 'v \<Rightarrow> ('k \<times> 'v) list \<Rightarrow> ('k \<times> 'v) list" where
  "map_set k v [] = [(k, v)]"
| "map_set k v ((k', v') # m) = (if k = k' then (k, v) # m else (k', v') # map_set k v m)"

datatype 'f entry =
    FileEntry string 'f
  | FileEntryFailing string
  | DirectoryEntry string "'f entry list"
  | DirectoryEntryFailing string
  | OtherEntry string

function getAllFiles_loop :: "'f entry list \<Rightarrow> (string \<times> 'f) list \<Rightarrow> (string \<times> 'f) list option" where
  "getAllFiles_loop [] fileMap = Some fileMap"
| "getAllFiles_loop (FileEntry fullPath file # queue) fileMap =
     getAllFiles_loop queue (map_set (file_key fullPath) file fileMap)"
| "getAllFiles_loop (FileEntryFailing fullPath # queue) fileMap = None"
| "getAllFiles_loop (DirectoryEntry fullPath entries # queue) fileMap =
     getAllFiles_loop (queue @ entries) fileMap"
| "getAllFiles_loop (DirectoryEntryFailing fullPath # queue) fileMap = None"
| "getAllFiles_loop (OtherEntry fullPath # queue) fileMap = getAllFiles_loop queue fileMap"
  by pat_completeness auto
termination
  by (relation "measure (\<lambda>(queue, fileMap). size_list size queue)") auto

definition getAllFiles :: "'f entry option list \<Rightarrow> (string \<times> 'f) list option" where
  "getAllFiles dataTransferItemList =
     getAllFiles_loop (List.map_filter (\<lambda>item. item) dataTransferItemList) []"

text \<open>The full paths of the file entries of an entry and below it.\<close>

fun file_paths :: "'f entry \<Rightarrow> string list" where
  "file_paths (FileEntry fullPath file) = [fullPath]"
| "file_paths (FileEntryFailing fullPath) = [fullPath]"
| "file_paths (DirectoryEntry fullPath entries) = concat (map file_paths entries)"
| "file_paths (DirectoryEntryFailing fullPath) = []"
| "file_paths (OtherEntry fullPath) = []"

definition schemeRegex :: "atom list" where
  "schemeRegex = [Alt [''package://'', ''file://'']]"

definition strip_scheme :: "string \<Rightarrow> string" where
  "strip_scheme targetPath =
     (case rx_match schemeRegex targetPath of
        None \<Rightarrow> targetPath
      | Some (ps, rest) \<Rightarrow> rest)"

definition findFileInMap :: "string \<Rightarrow> (string \<times> 'f) list \<Rightarrow> 'f option" where
  "findFileInMap targetPath fileMap =
     (case map_of fileMap targetPath of
        Some file \<Rightarrow> Some file
      | None \<Rightarrow>
          (let normalizedTarget = strip_scheme targetPath in
           case find (\<lambda>(path, file).
                        path = normalizedTarget
                      \<or> endsWith path (''/'' @ normalizedTarget)
                      \<or> endsWith normalizedTarget (''/'' @ path)) fileMap of
             Some (path, file) \<Rightarrow> Some file
           | None \<Rightarrow>
               (case pop (js_split CHR ''/'' normalizedTarget) of
                  None \<Rightarrow> None
                | Some targetFileName \<Rightarrow>
                    if targetFileName \<noteq> [] then
                      (case find (\<lambda>(path, file).
                                    endsWith path (''/'' @ targetFileName)
                                  \<or> path = targetFileName) fileMap of
                         Some (path, file) \<Rightarrow> Some file
                       | None \<Rightarrow> None)
                    else None)))"

text \<open>
  The strategies as the specification words them, as predicates on a key of the file set:
  the scheme-stripped match (2a, 2b, 2c) against a normalized target, and the
  filename-only fallback (3) against a final path segment.
\<close>

definition scheme_stripped_match :: "string \<Rightarrow> string \<Rightarrow> bool" where
  "scheme_stripped_match normalizedTarget key =
     (key = normalizedTarget
    \<or> suffix (''/'' @ normalizedTarget) key
    \<or> suffix (''/'' @ key) normalizedTarget)"

definition final_segment :: "string \<Rightarrow> string" where
  "final_segment s = rev (takeWhile (\<lambda>c. c \<noteq> CHR ''/'') (rev s))"

definition filename_match :: "string \<Rightarrow> string \<Rightarrow> bool" where
  "filename_match name key = (key = name \<or> suffix (''/'' @ name) key)"

text \<open>The first entry of the file set, in iteration order, whose key satisfies \<open>P\<close>.\<close>

definition first_entry :: "(string \<Rightarrow> bool) \<Rightarrow> (string \<times> 'f) list \<Rightarrow> (string \<times> 'f) option" where
  "first_entry P fileMap = find (\<lambda>(key, file). P key) fileMap"

text \<open>
  The matcher as the specification words it: the three strategies in priority order, the
  fallback tried on every target.
\<close>

definition spec_match :: "string \<Rightarrow> (string \<times> 'f) list \<Rightarrow> 'f option" where
  "spec_match target fileSet =
     (case map_of fileSet target of
        Some file \<Rightarrow> Some file
      | None \<Rightarrow>
          (case first_entry (scheme_stripped_match (strip_scheme target)) fileSet of
             Some (key, file) \<Rightarrow> Some file
           | None \<Rightarrow>
               (case first_entry (filename_match (final_segment (strip_scheme target))) fileSet of
                  Some (key, file) \<Rightarrow> Some file
                | None \<Rightarrow> None)))"

section \<open>The include resolver: \<open>processIncludes\<close>\<close>

subsection \<open>The regular expressions of the resolver\<close>

text \<open>
  \<^verbatim>\<open>/<xacro:include\s+filename=\"([^\"]+)\"\s*\/>/g\<close>; the file name is group 1, the
  text of the atom at index 3.
\<close>

definition includeRegex :: "atom list" where
  "includeRegex =
     [Lit ''<xacro:include'', Rep is_space 1 True, Lit ''filename=\"'',
      Rep (\<lambda>c. c \<noteq> CHR 0x22) 1 True, Lit ''\"'', Rep is_space 0 True, Lit ''/>'']"

text \<open>\<^verbatim>\<open>/\$\(find\s+([^)]+)\)/\<close>; the package name is group 1, the atom at index 2.\<close>

definition pkgRegex :: "atom list" where
  "pkgRegex =
     [Lit ''$(find'', Rep is_space 1 True, Rep (\<lambda>c. c \<noteq> CHR '')'') 1 True, Lit '')'']"

text \<open>\<^verbatim>\<open>/<\?xml.*\?>/g\<close>, \<^verbatim>\<open>/<robot.*?>/g\<close> and \<^verbatim>\<open>/<\/robot>/g\<close>.\<close>

definition xmlHeaderRegex :: "atom list" where
  "xmlHeaderRegex = [Lit ''<?xml'', Rep (\<lambda>c. \<not> is_line_terminator c) 0 True, Lit ''?>'']"

definition robotOpenRegex :: "atom list" where
  "robotOpenRegex = [Lit ''<robot'', Rep (\<lambda>c. \<not> is_line_terminator c) 0 False, Lit ''>'']"

definition robotCloseRegex :: "atom list" where
  "robotCloseRegex = [Lit ''</robot>'']"

definition stripped :: "string \<Rightarrow> string" where
  "stripped includeContent =
     rx_remove_all robotCloseRegex
       (rx_remove_all robotOpenRegex
          (rx_remove_all xmlHeaderRegex includeContent))"

subsection \<open>The environment: Node's \<open>path\<close> and \<open>fs\<close> modules\<close>

text \<open>
  \<^verbatim>\<open>path.join\<close>, \<^verbatim>\<open>path.resolve\<close> and \<^verbatim>\<open>path.dirname\<close> belong to the platform, not to
  the repository: they are parameters of the model, as is the directory \<^verbatim>\<open>public\<close> the
  server computes from its own location. The file system is what \<^verbatim>\<open>fs.existsSync\<close> and
  \<^verbatim>\<open>fs.readFileSync\<close> observe of a path: nothing there, something that cannot be read
  as a file (the read throws, with a message), or a file and its text.
\<close>

datatype fs_entry = Missing | Unreadable string | File string

record env =
  path_join :: "string \<Rightarrow> string \<Rightarrow> string \<Rightarrow> string"
  path_resolve :: "string \<Rightarrow> string \<Rightarrow> string"
  path_dirname :: "string \<Rightarrow> string"
  fs_lookup :: "string \<Rightarrow> fs_entry"
  public_dir :: string

text \<open>
  What a call of the resolver can throw: the error of a read that fails, with its
  message, and the \<^verbatim>\<open>RangeError\<close> of the engine when the call stack is exhausted.
  \<open>message\<close> is the \<^verbatim>\<open>message\<close> property of the error.
\<close>

datatype error = ReadFailure string | StackOverflow

definition message :: "error \<Rightarrow> string" where
  "message err =
     (case err of
        ReadFailure msg \<Rightarrow> msg
      | StackOverflow \<Rightarrow> ''Maximum call stack size exceeded'')"

subsection \<open>The resolver\<close>

text \<open>The path of the file a directive names (the first lines of the callback). What the
  resolver writes to the console is left out.\<close>

definition include_target :: "env \<Rightarrow> string \<Rightarrow> string \<Rightarrow> string \<Rightarrow> string" where
  "include_target E workingDir publicDirPath filename =
     (if js_includes filename ''$(find '' then
        (case rx_search pkgRegex filename of
           Some pkgMatch \<Rightarrow>
             (case pop (js_split CHR '')'' filename) of
                Some rest \<Rightarrow> path_join E publicDirPath (pkgMatch ! 2) rest
              | None \<Rightarrow> filename)
         | None \<Rightarrow> filename)
      else path_resolve E workingDir filename)"

definition placeholder :: "string \<Rightarrow> string" where
  "placeholder filename = ''<!-- File not found: '' @ filename @ '' -->''"

text \<open>
  \<^verbatim>\<open>content.replace(includeRegex, callback)\<close>: the callback runs on the matches from left
  to right and its results replace them. A callback that throws ends the whole call with
  that failure: \<open>Inl e\<close> says that a call throws \<open>e\<close>, \<open>Inr out\<close> that it returns \<open>out\<close>.
\<close>

fun replace_matches ::
  "(string list \<Rightarrow> error + string) \<Rightarrow> seg list \<Rightarrow> error + string" where
  "replace_matches cb [] = Inr []"
| "replace_matches cb (Chr c # segs) =
     (case replace_matches cb segs of
        Inl e \<Rightarrow> Inl e
      | Inr out \<Rightarrow> Inr (c # out))"
| "replace_matches cb (Matched groups # segs) =
     (case cb groups of
        Inl e \<Rightarrow> Inl e
      | Inr r \<Rightarrow>
          (case replace_matches cb segs of
             Inl e \<Rightarrow> Inl e
           | Inr out \<Rightarrow> Inr (r @ out)))"

text \<open>
  The recursion of \<^verbatim>\<open>processIncludes\<close> has no bound of its own; what bounds it is the
  call stack of the engine. \<open>stack\<close> is the number of nested calls of
  \<^verbatim>\<open>processIncludes\<close> the call stack has room for: a call made when there is room for
  none throws the \<^verbatim>\<open>RangeError\<close> of the exhausted stack, and every call leaves one less
  for the calls its callback makes. No \<^verbatim>\<open>try\<close> stands between a throw and the caller of
  the outermost call.
\<close>

fun processIncludes ::
  "env \<Rightarrow> nat \<Rightarrow> string \<Rightarrow> string \<Rightarrow> string \<Rightarrow> error + string" where
  "processIncludes E 0 content workingDir publicDirPath = Inl StackOverflow"
| "processIncludes E (Suc stack) content workingDir publicDirPath =
     replace_matches
       (\<lambda>groups.
          let filename = groups ! 3;
              filePath = include_target E workingDir publicDirPath filename
          in case fs_lookup E filePath of
               File includeContent \<Rightarrow>
                 processIncludes E stack (stripped includeContent)
                   (path_dirname E filePath) publicDirPath
             | Unreadable msg \<Rightarrow> Inl (ReadFailure msg)
             | Missing \<Rightarrow> Inr (placeholder filename))
       (rx_scan includeRegex content)"

subsection \<open>The endpoint \<^verbatim>\<open>/api/xacro-to-urdf\<close>\<close>

text \<open>
  The handler answers with a status and a body. The query parameter \<^verbatim>\<open>file\<close> is absent
  or a string; the empty string is falsy. The read of the file and the call of the
  resolver stand in a \<^verbatim>\<open>try\<close> whose \<^verbatim>\<open>catch\<close> answers 500 with the message of whatever
  was thrown. \<open>stack\<close> is the room on the call stack where the handler calls the resolver.
\<close>

datatype response = Response nat string

definition xacro_to_urdf :: "env \<Rightarrow> nat \<Rightarrow> string option \<Rightarrow> response" where
  "xacro_to_urdf E stack query_file =
     (case query_file of
        None \<Rightarrow> Response 400 ''No file specified''
      | Some fileRelativePath \<Rightarrow>
          if fileRelativePath = [] then Response 400 ''No file specified''
          else
            (let publicDirPath = public_dir E;
                 fullPath = path_resolve E publicDirPath fileRelativePath
             in case fs_lookup E fullPath of
                  Missing \<Rightarrow> Response 404 (''File not found: '' @ fileRelativePath)
                | Unreadable msg \<Rightarrow> Response 500 msg
                | File content \<Rightarrow>
                    (case processIncludes E stack content (path_dirname E fullPath) publicDirPath of
                       Inl err \<Rightarrow> Response 500 (message err)
                     | Inr assembled \<Rightarrow> Response 200 assembled)))"

subsection \<open>Notions of the specification\<close>

text \<open>A directive written with one space and no white space before \<^verbatim>\<open>/>\<close>.\<close>

definition directive :: "string \<Rightarrow> string" where
  "directive filename = ''<xacro:include filename=\"'' @ filename @ ''\"/>''"

text \<open>The matches among the segments of a scan, and the paths the directives of a
  document name.\<close>

fun matches_of :: "seg list \<Rightarrow> string list list" where
  "matches_of [] = []"
| "matches_of (Chr c # segs) = matches_of segs"
| "matches_of (Matched groups # segs) = groups # matches_of segs"

definition directive_targets :: "env \<Rightarrow> string \<Rightarrow> string \<Rightarrow> string \<Rightarrow> string list" where
  "directive_targets E content workingDir rootDir =
     map (\<lambda>groups. include_target E workingDir rootDir (groups ! 3))
       (matches_of (rx_scan includeRegex content))"

definition directive_filenames :: "string \<Rightarrow> string list" where
  "directive_filenames content =
     map (\<lambda>groups. groups ! 3) (matches_of (rx_scan includeRegex content))"


text \<open>
  What the callback of the resolver makes of a directive with the file name \<open>filename\<close>,
  in a document of the directory \<open>workingDir\<close>, when the stack has room for \<open>stack\<close>
  further calls (the body of the callback, with the call of the resolver it makes).
\<close>

definition include_result :: "env \<Rightarrow> nat \<Rightarrow> string \<Rightarrow> string \<Rightarrow> string \<Rightarrow> error + string" where
  "include_result E stack workingDir rootDir filename =
     (let filePath = include_target E workingDir rootDir filename
      in case fs_lookup E filePath of
           File includeContent \<Rightarrow>
             processIncludes E stack (stripped includeContent) (path_dirname E filePath) rootDir
         | Unreadable msg \<Rightarrow> Inl (ReadFailure msg)
         | Missing \<Rightarrow> Inr (placeholder filename))"

definition returns :: "error + string \<Rightarrow> bool" where
  "returns res = (case res of Inl e \<Rightarrow> False | Inr out \<Rightarrow> True)"




subsection \<open>Example environments\<close>

text \<open>
  For the examples: path functions that agree with Node's POSIX \<^verbatim>\<open>path\<close> module on
  plain arguments (an absolute directory without a trailing slash, a relative file name
  without dot segments), and a disk given by a table of its entries.
\<close>

definition plain_join :: "string \<Rightarrow> string \<Rightarrow> string \<Rightarrow> string" where
  "plain_join a b c = a @ ''/'' @ b @ (if prefix ''/'' c \<or> c = [] then c else ''/'' @ c)"

definition plain_resolve :: "string \<Rightarrow> string \<Rightarrow> string" where
  "plain_resolve dir f = (if prefix ''/'' f then f else dir @ ''/'' @ f)"

definition plain_dirname :: "string \<Rightarrow> string" where
  "plain_dirname p = rev (drop 1 (dropWhile (\<lambda>c. c \<noteq> CHR ''/'') (rev p)))"

definition fs_of :: "(string \<times> fs_entry) list \<Rightarrow> string \<Rightarrow> fs_entry" where
  "fs_of files p = (case map_of files p of Some e \<Rightarrow> e | None \<Rightarrow> Missing)"

definition disk :: "(string \<times> fs_entry) list \<Rightarrow> env" where
  "disk files =
     \<lparr> path_join = plain_join, path_resolve = plain_resolve, path_dirname = plain_dirname,
       fs_lookup = fs_of files, public_dir = ''/srv/public'' \<rparr>"

section \<open>Properties of the asset path matcher\<close>

subsection \<open>Splitting, the final segment and the scheme\<close>

lemma js_split_nonempty: "js_split sep s \<noteq> []"
  by (induction s) (auto split: list.splits)

lemma js_split_no_sep: "sep \<notin> set s \<Longrightarrow> js_split sep s = [s]"
  by (induction s) auto

lemma js_split_sep: "sep \<in> set s \<Longrightarrow> \<exists>p q qs. js_split sep s = p # q # qs"
proof (induction s)
  case Nil then show ?case by simp
next
  case (Cons c cs)
  show ?case
  proof (cases "c = sep")
    case True
    then show ?thesis using js_split_nonempty [of sep cs] by (cases "js_split sep cs") auto
  next
    case False
    with Cons obtain p q qs where "js_split sep cs = p # q # qs" by auto
    with False show ?thesis by simp
  qed
qed

lemma last_js_split: "last (js_split sep s) = rev (takeWhile (\<lambda>c. c \<noteq> sep) (rev s))"
proof (induction s)
  case Nil then show ?case by simp
next
  case (Cons c cs)
  show ?case
  proof (cases "c = sep")
    case True
    then show ?thesis using Cons js_split_nonempty [of sep cs]
      by (simp add: takeWhile_append)
  next
    case False
    show ?thesis
    proof (cases "sep \<in> set cs")
      case True
      then obtain p q qs where "js_split sep cs = p # q # qs" using js_split_sep by blast
      with Cons False True show ?thesis by (auto simp: takeWhile_append)
    next
      case F2: False
      with False show ?thesis by (simp add: js_split_no_sep takeWhile_append)
    qed
  qed
qed

lemma pop_js_split: "pop (js_split CHR ''/'' s) = Some (final_segment s)"
  by (simp add: pop_def js_split_nonempty last_js_split final_segment_def)

lemma strip_scheme_package: "strip_scheme (''package://'' @ r) = r"
  by (simp add: strip_scheme_def schemeRegex_def)

lemma strip_scheme_file: "strip_scheme (''file://'' @ r) = r"
  by (simp add: strip_scheme_def schemeRegex_def)

lemma strip_scheme_other:
  "\<not> prefix ''package://'' t \<Longrightarrow> \<not> prefix ''file://'' t \<Longrightarrow> strip_scheme t = t"
  by (simp add: strip_scheme_def schemeRegex_def)

lemma findFileInMap_unfold:
  "findFileInMap t fm =
     (case map_of fm t of
        Some file \<Rightarrow> Some file
      | None \<Rightarrow>
          (case first_entry (scheme_stripped_match (strip_scheme t)) fm of
             Some (key, file) \<Rightarrow> Some file
           | None \<Rightarrow>
               if final_segment (strip_scheme t) = [] then None
               else (case first_entry (filename_match (final_segment (strip_scheme t))) fm of
                       Some (key, file) \<Rightarrow> Some file
                     | None \<Rightarrow> None)))"
proof -
  have a: "(\<lambda>(path, file). path = n \<or> endsWith path (''/'' @ n) \<or> endsWith n (''/'' @ path))
         = (\<lambda>(key, file::'a). scheme_stripped_match n key)" for n
    by (auto simp: scheme_stripped_match_def endsWith_def fun_eq_iff)
  have b: "(\<lambda>(path, file). endsWith path (''/'' @ n) \<or> path = n)
         = (\<lambda>(key, file::'a). filename_match n key)" for n
    by (auto simp: filename_match_def endsWith_def fun_eq_iff)
  show ?thesis
    unfolding findFileInMap_def first_entry_def Let_def pop_js_split a b
    by (simp split: option.splits)
qed

lemma first_entry_None: "first_entry P fm = None \<longleftrightarrow> (\<forall>(key, file) \<in> set fm. \<not> P key)"
  by (auto simp: first_entry_def find_None_iff)

lemma first_entry_Some: "first_entry P fm = Some (key, file) \<Longrightarrow> (key, file) \<in> set fm \<and> P key"
  by (auto simp: first_entry_def find_Some_iff) (metis nth_mem)

subsection \<open>The keys of the file map\<close>

lemma file_key_file_path:
  assumes "fullPath \<noteq> []" and "last fullPath \<noteq> CHR ''/''"
  shows "file_key fullPath \<noteq> [] \<and> last (file_key fullPath) \<noteq> CHR ''/''"
proof (cases fullPath)
  case Nil
  with assms(1) show ?thesis by simp
next
  case (Cons c cs)
  with assms(2) show ?thesis
    by (cases cs) (auto simp: file_key_def)
qed

lemma map_fst_map_set:
  "map fst (map_set k v m) = (if k \<in> fst ` set m then map fst m else map fst m @ [k])"
  by (induction m) (force simp: image_iff)+

lemma map_set_keys: "set (map fst (map_set k v m)) = insert k (set (map fst m))"
  unfolding map_fst_map_set by auto

lemma getAllFiles_loop_keys:
  "getAllFiles_loop queue m = Some fm \<Longrightarrow>
     set (map fst fm) \<subseteq> set (map fst m) \<union> file_key ` set (concat (map file_paths queue))"
proof (induction queue m rule: getAllFiles_loop.induct)
  case (2 fullPath f queue fileMap)
  from "2.IH" [OF "2.prems" [unfolded getAllFiles_loop.simps]] show ?case
    by (auto simp: map_set_keys simp del: set_map)
next
  case (4 fullPath entries queue fileMap)
  from "4.prems" have "getAllFiles_loop (queue @ entries) fileMap = Some fm"
    by simp
  from "4.IH" [OF this] show ?case
    by (simp add: image_Un) blast
qed auto

lemma getAllFiles_keys:
  "getAllFiles items = Some fm \<Longrightarrow>
     set (map fst fm) \<subseteq> file_key ` set (concat (map file_paths (List.map_filter (\<lambda>item. item) items)))"
  unfolding getAllFiles_def by (drule getAllFiles_loop_keys) simp

lemma getAllFiles_file_paths:
  assumes "getAllFiles items = Some fm"
    and "\<forall>fullPath \<in> set (concat (map file_paths (List.map_filter (\<lambda>item. item) items))).
           fullPath \<noteq> [] \<and> last fullPath \<noteq> CHR ''/''"
  shows "\<forall>(key, file) \<in> set fm. key \<noteq> [] \<and> last key \<noteq> CHR ''/''"
proof (intro ballI, clarify)
  fix key f assume "(key, f) \<in> set fm"
  then have "key \<in> set (map fst fm)"
    by force
  with getAllFiles_keys [OF assms(1)] obtain fullPath where
    "fullPath \<in> set (concat (map file_paths (List.map_filter (\<lambda>item. item) items)))"
    and k: "key = file_key fullPath"
    by blast
  with assms(2) have "fullPath \<noteq> []" "last fullPath \<noteq> CHR ''/''"
    by auto
  from file_key_file_path [OF this] k show "key \<noteq> [] \<and> last key \<noteq> CHR ''/''"
    by simp
qed

lemma findFileInMap_file_paths:
  assumes wf: "\<forall>(key, file) \<in> set fm. key \<noteq> [] \<and> last key \<noteq> CHR ''/''"
  shows "findFileInMap t fm = spec_match t fm"
proof -
  have "first_entry (filename_match []) fm = None"
    unfolding first_entry_None filename_match_def
    using wf by (auto simp: suffix_def)
  then show ?thesis
    by (cases "final_segment (strip_scheme t) = []")
       (simp_all add: findFileInMap_unfold spec_match_def split: option.splits)
qed

text \<open>On the map the application builds from dropped files the matcher is the matcher of
  the specification.\<close>

lemma findFileInMap_getAllFiles:
  assumes "getAllFiles items = Some fm"
    and "\<forall>fullPath \<in> set (concat (map file_paths (List.map_filter (\<lambda>item. item) items))).
           fullPath \<noteq> [] \<and> last fullPath \<noteq> CHR ''/''"
  shows "findFileInMap t fm = spec_match t fm"
  by (rule findFileInMap_file_paths) (rule getAllFiles_file_paths [OF assms])

lemma getAllFiles_example:
  "getAllFiles [Some (DirectoryEntry ''/drop''
                        [DirectoryEntry ''/drop/meshes'' [FileEntry ''/drop/meshes/base.stl'' ''F2''],
                         FileEntry ''/drop/robot.urdf'' ''F1'']),
                None]
     = Some [(''drop/robot.urdf'', ''F1''), (''drop/meshes/base.stl'', ''F2'')]"
  by (simp add: getAllFiles_def List.map_filter_simps file_key_def)

subsection \<open>The order of the strategies\<close>



text \<open>
  The condition on the keys is used for targets whose final segment is empty: the source
  tries the fallback only \<^verbatim>\<open>if (targetFileName)\<close>, so that a list with an entry whose key
  ends with a slash, which no file entry gives, is not searched for such a target.
\<close>

lemma findFileInMap_fallback_guard:
  "final_segment (strip_scheme t) = [] \<Longrightarrow>
     findFileInMap t fm =
       (case map_of fm t of
          Some file \<Rightarrow> Some file
        | None \<Rightarrow>
            (case first_entry (scheme_stripped_match (strip_scheme t)) fm of
               Some (key, file) \<Rightarrow> Some file
             | None \<Rightarrow> None))"
  by (simp add: findFileInMap_unfold)

subsection \<open>Absence of a match\<close>

text \<open>
  Claim C8. The matcher is a total function with no failure outcome: the source calls
  only \<^verbatim>\<open>has\<close>, \<^verbatim>\<open>get\<close>, \<^verbatim>\<open>replace\<close>, \<^verbatim>\<open>endsWith\<close>, \<^verbatim>\<open>split\<close> and \<^verbatim>\<open>pop\<close>, none
  of which throws on strings. On the empty file set, and on every file set none of whose
  keys matches under any strategy, the result is Not Found (\<open>None\<close>); every other
  result is the file of an entry of the file set.
\<close>

theorem findFileInMap_not_found:
  "findFileInMap t ([] :: (string \<times> 'f) list) = None
 \<and> ((\<forall>(key, file) \<in> set fm.
        key \<noteq> t
      \<and> \<not> scheme_stripped_match (strip_scheme t) key
      \<and> \<not> filename_match (final_segment (strip_scheme t)) key)
     \<longrightarrow> findFileInMap t fm = None)
 \<and> (findFileInMap t fm = None
     \<or> (\<exists>key file. (key, file) \<in> set fm \<and> findFileInMap t fm = Some file))"
proof (intro conjI impI)
  show "findFileInMap t ([] :: (string \<times> 'f) list) = None"
    by (simp add: findFileInMap_unfold first_entry_def)
next
  assume h: "\<forall>(key, file) \<in> set fm.
        key \<noteq> t
      \<and> \<not> scheme_stripped_match (strip_scheme t) key
      \<and> \<not> filename_match (final_segment (strip_scheme t)) key"
  have 1: "map_of fm t = None"
    using h by (force simp: map_of_eq_None_iff)
  have 2: "first_entry (scheme_stripped_match (strip_scheme t)) fm = None"
    using h by (force simp: first_entry_None)
  have 3: "first_entry (filename_match (final_segment (strip_scheme t))) fm = None"
    using h by (force simp: first_entry_None)
  show "findFileInMap t fm = None"
    by (simp add: findFileInMap_unfold 1 2 3)
next
  show "findFileInMap t fm = None
     \<or> (\<exists>key file. (key, file) \<in> set fm \<and> findFileInMap t fm = Some file)"
    unfolding findFileInMap_unfold
    by (auto split: option.splits dest: map_of_SomeD first_entry_Some)
qed

text \<open>An instance: a file set of one entry that no strategy accepts, and the empty file set.\<close>

theorem findFileInMap_not_found_witness:
  "''a/b.stl'' \<noteq> ''package://x/y.stl''
 \<and> \<not> scheme_stripped_match (strip_scheme ''package://x/y.stl'') ''a/b.stl''
 \<and> \<not> filename_match (final_segment (strip_scheme ''package://x/y.stl'')) ''a/b.stl''
 \<and> findFileInMap ''package://x/y.stl'' [(''a/b.stl'', ''F1'')] = None
 \<and> findFileInMap ''package://x/y.stl'' ([] :: (string \<times> string) list) = None"
proof -
  have s: "strip_scheme ''package://x/y.stl'' = ''x/y.stl''"
    using strip_scheme_package [of "''x/y.stl''"] by simp
  have h: "''a/b.stl'' \<noteq> ''package://x/y.stl''
      \<and> \<not> scheme_stripped_match (strip_scheme ''package://x/y.stl'') ''a/b.stl''
      \<and> \<not> filename_match (final_segment (strip_scheme ''package://x/y.stl'')) ''a/b.stl''"
    by (simp add: s scheme_stripped_match_def filename_match_def final_segment_def suffix_to_prefix)
  then have "\<forall>(key, file) \<in> set [(''a/b.stl'', ''F1'')].
        key \<noteq> ''package://x/y.stl''
      \<and> \<not> scheme_stripped_match (strip_scheme ''package://x/y.stl'') key
      \<and> \<not> filename_match (final_segment (strip_scheme ''package://x/y.stl'')) key"
    by simp
  then show ?thesis
    using findFileInMap_not_found [of "''package://x/y.stl''" "[(''a/b.stl'', ''F1'')]"] h
    by blast
qed

subsection \<open>The scheme prefix\<close>

text \<open>
  Claim C10. Normalization removes at most one scheme prefix, only at the start of the
  target and only \<^verbatim>\<open>package://\<close> or \<^verbatim>\<open>file://\<close>: a target that begins with one of the
  two loses exactly that prefix (whatever follows it, another scheme included), and every
  other target is its own normalized target, so that strategies 2 and 3 compare the keys
  with the full string.
\<close>

theorem strip_scheme_one_prefix:
  "strip_scheme (''package://'' @ r) = r
 \<and> strip_scheme (''file://'' @ r) = r
 \<and> (\<not> prefix ''package://'' t \<and> \<not> prefix ''file://'' t \<longrightarrow> strip_scheme t = t)
 \<and> (\<not> prefix ''package://'' t \<and> \<not> prefix ''file://'' t \<and> map_of fm t = None \<longrightarrow>
      findFileInMap t fm =
        (case first_entry (scheme_stripped_match t) fm of
           Some (key, file) \<Rightarrow> Some file
         | None \<Rightarrow>
             if final_segment t = [] then None
             else (case first_entry (filename_match (final_segment t)) fm of
                     Some (key, file) \<Rightarrow> Some file
                   | None \<Rightarrow> None)))"
proof (intro conjI impI)
  show "strip_scheme (''package://'' @ r) = r" by (rule strip_scheme_package)
  show "strip_scheme (''file://'' @ r) = r" by (rule strip_scheme_file)
next
  assume "\<not> prefix ''package://'' t \<and> \<not> prefix ''file://'' t"
  then show "strip_scheme t = t" by (simp add: strip_scheme_other)
next
  assume "\<not> prefix ''package://'' t \<and> \<not> prefix ''file://'' t \<and> map_of fm t = None"
  then have st: "strip_scheme t = t" and mp: "map_of fm t = None"
    by (simp_all add: strip_scheme_other)
  show "findFileInMap t fm =
        (case first_entry (scheme_stripped_match t) fm of
           Some (key, file) \<Rightarrow> Some file
         | None \<Rightarrow>
             if final_segment t = [] then None
             else (case first_entry (filename_match (final_segment t)) fm of
                     Some (key, file) \<Rightarrow> Some file
                   | None \<Rightarrow> None))"
    unfolding findFileInMap_unfold st mp by simp
qed

text \<open>
  An instance: a target with the scheme \<^verbatim>\<open>http://\<close> and \<^verbatim>\<open>package://\<close> further
  on is left as it is (and found only by the filename fallback), and of two prefixes only
  the first is removed.
\<close>

theorem strip_scheme_one_prefix_witness:
  "\<not> prefix ''package://'' ''http://host/package://a/b.stl''
 \<and> \<not> prefix ''file://'' ''http://host/package://a/b.stl''
 \<and> strip_scheme ''http://host/package://a/b.stl'' = ''http://host/package://a/b.stl''
 \<and> map_of [(''a/b.stl'', ''F1'')] ''http://host/package://a/b.stl'' = None
 \<and> findFileInMap ''http://host/package://a/b.stl'' [(''a/b.stl'', ''F1'')] = Some ''F1''
 \<and> strip_scheme ''package://file://a/b.stl'' = ''file://a/b.stl''"
proof -
  have p: "\<not> prefix ''package://'' ''http://host/package://a/b.stl''
         \<and> \<not> prefix ''file://'' ''http://host/package://a/b.stl''"
    by simp
  have m: "map_of [(''a/b.stl'', ''F1'')] ''http://host/package://a/b.stl'' = None"
    by simp
  have q: "strip_scheme ''package://file://a/b.stl'' = ''file://a/b.stl''"
    using strip_scheme_one_prefix [where r = "''file://a/b.stl''" and t = "[]"
        and fm = "[] :: (string \<times> unit) list"] by simp
  show ?thesis
    using strip_scheme_one_prefix [where t = "''http://host/package://a/b.stl''"
        and fm = "[(''a/b.stl'', ''F1'')]"] p m q
    by (simp add: first_entry_def scheme_stripped_match_def suffix_to_prefix)
qed

section \<open>Properties of the regular expression matcher and of the scan\<close>

lemma first_some_SomeD: "first_some f xs = Some y \<Longrightarrow> \<exists>x \<in> set xs. f x = Some y"
  by (induction xs) (auto split: option.splits)


lemma rx_match_sound:
  "rx_match r s = Some (ps, rest) \<Longrightarrow> s = concat ps @ rest \<and> length ps = length r"
proof (induction r s arbitrary: ps rest rule: rx_match.induct)
  case (1 s)
  then show ?case by simp
next
  case (2 l r s)
  from "2.prems" have pl: "prefix l s"
    by (simp split: if_splits)
  with "2.prems" obtain ps' where m: "rx_match r (drop (length l) s) = Some (ps', rest)"
    and ps: "ps = l # ps'"
    by (auto split: option.splits)
  from "2.IH" [OF pl m] pl ps show ?case
    by (auto simp: prefix_def)
next
  case (3 ls r s)
  from first_some_SomeD [OF "3.prems" [simplified]]
  obtain l where l: "l \<in> set ls" and pl: "prefix l s"
    and m': "(case rx_match r (drop (length l) s) of None \<Rightarrow> None
              | Some (ps, rest) \<Rightarrow> Some (l # ps, rest)) = Some (ps, rest)"
    by (auto split: if_splits)
  then obtain ps' where m: "rx_match r (drop (length l) s) = Some (ps', rest)"
    and ps: "ps = l # ps'"
    by (auto split: option.splits)
  from "3.IH" [OF pl m] pl ps show ?case
    by (auto simp: prefix_def)
next
  case (4 cls m greedy r s)
  from first_some_SomeD [OF "4.prems" [simplified Let_def rx_match.simps]]
  obtain k where
    m': "(case rx_match r (drop k s) of None \<Rightarrow> None
              | Some (ps, rest) \<Rightarrow> Some (take k s # ps, rest)) = Some (ps, rest)"
    by auto
  then obtain ps' where m: "rx_match r (drop k s) = Some (ps', rest)"
    and ps: "ps = take k s # ps'"
    by (auto split: option.splits)
  from "4.IH" [OF refl refl m] have "drop k s = concat ps' @ rest" "length ps' = length r"
    by auto
  with ps show ?case
    by (metis append.assoc append_take_drop_id concat.simps(2) length_Cons)
qed

lemma rx_match_rest: "rx_match r s = Some (ps, rest) \<Longrightarrow> rest = drop (length (concat ps)) s"
  by (drule rx_match_sound) simp

lemma rx_scan_text: "concat (map seg_text (rx_scan r s)) = s"
proof (induction r s rule: rx_scan.induct)
  case (1 r)
  show ?case
  proof (cases "rx_match r []")
    case None
    then show ?thesis by simp
  next
    case (Some a)
    then obtain ps rest where "rx_match r [] = Some (ps, rest)" by (cases a) auto
    then show ?thesis using rx_match_sound [of r "[]" ps rest] by simp
  qed
next
  case (2 r c cs)
  show ?case
  proof (cases "rx_match r (c # cs)")
    case None
    with 2 show ?thesis by simp
  next
    case (Some a)
    then obtain ps rest where a: "a = (ps, rest)" by (cases a)
    from Some a have snd: "c # cs = concat ps @ rest" and rest: "rest = drop (length (concat ps)) (c # cs)"
      using rx_match_sound rx_match_rest by blast+
    show ?thesis
    proof (cases "concat ps = []")
      case True
      with 2 Some a show ?thesis by simp
    next
      case False
      have "rx_scan r (c # cs) = Matched ps # rx_scan r rest"
        using Some a False rest by (simp del: concat_eq_Nil_conv)
      moreover have "concat (map seg_text (rx_scan r rest)) = rest"
        using "2.IH"(3) [OF Some a [symmetric] False] rest by simp
      ultimately have "concat (map seg_text (rx_scan r (c # cs))) = concat ps @ rest"
        by simp
      with snd show ?thesis by simp
    qed
  qed
qed

lemma rx_scan_no_match: "rx_search r s = None \<Longrightarrow> rx_scan r s = map Chr s"
  by (induction s) (auto split: option.splits)

lemma rx_scan_matched:
  "Matched ps \<in> set (rx_scan r s) \<Longrightarrow>
     length ps = length r \<and> (\<exists>pre rest. s = pre @ concat ps @ rest \<and> rx_match r (concat ps @ rest) = Some (ps, rest))"
proof (induction r s rule: rx_scan.induct)
  case (1 r)
  show ?case
  proof (cases "rx_match r []")
    case None
    with 1 show ?thesis by simp
  next
    case (Some a)
    then obtain qs rest where m: "rx_match r [] = Some (qs, rest)" by (cases a) auto
    with 1 have "ps = qs" by simp
    moreover from rx_match_sound [OF m] have "concat qs = []" "rest = []" "length qs = length r"
      by (simp_all del: concat_eq_Nil_conv Nil_eq_concat_conv)
    ultimately have "length ps = length r" "[] = [] @ concat ps @ []"
      "rx_match r (concat ps @ []) = Some (ps, [])"
      using m by (simp_all del: concat_eq_Nil_conv Nil_eq_concat_conv)
    then show ?thesis by blast
  qed
next
  case (2 r c cs)
  show ?case
  proof (cases "rx_match r (c # cs)")
    case None
    with "2.prems" have "Matched ps \<in> set (rx_scan r cs)" by simp
    from "2.IH"(1) [OF None this] show ?thesis
      by (metis append_Cons)
  next
    case (Some a)
    then obtain qs rest where a: "a = (qs, rest)" by (cases a)
    from Some a have snd: "c # cs = concat qs @ rest" and len: "length qs = length r"
      and rest: "rest = drop (length (concat qs)) (c # cs)"
      using rx_match_sound rx_match_rest by blast+
    have here: "length qs = length r \<and> (\<exists>pre rest. c # cs = pre @ concat qs @ rest
        \<and> rx_match r (concat qs @ rest) = Some (qs, rest))"
      using Some a snd len by (metis append_Nil)
    show ?thesis
    proof (cases "concat qs = []")
      case True
      with "2.prems" Some a have "ps = qs \<or> Matched ps \<in> set (rx_scan r cs)"
        by (auto simp del: concat_eq_Nil_conv)
      then show ?thesis
      proof
        assume "ps = qs" with here show ?thesis by simp
      next
        assume "Matched ps \<in> set (rx_scan r cs)"
        from "2.IH"(2) [OF Some a [symmetric] True this] show ?thesis
          by (metis append_Cons)
      qed
    next
      case False
      with "2.prems" Some a have "ps = qs \<or> Matched ps \<in> set (rx_scan r rest)"
        using rest by (auto simp del: concat_eq_Nil_conv)
      then show ?thesis
      proof
        assume "ps = qs" with here show ?thesis by simp
      next
        assume "Matched ps \<in> set (rx_scan r rest)"
        with "2.IH"(3) [OF Some a [symmetric] False] rest
        obtain pre rest' where "length ps = length r" "rest = pre @ concat ps @ rest'"
          "rx_match r (concat ps @ rest') = Some (ps, rest')"
          by auto
        with snd show ?thesis
          by (metis append.assoc)
      qed
    qed
  qed
qed

text \<open>The groups the resolver reads exist: a match of the directive pattern has seven
  pieces (the file name is the piece at index 3), a match of the macro pattern four
  (the package name is the piece at index 2).\<close>

lemma rx_scan_includeRegex_groups:
  "Matched groups \<in> set (rx_scan includeRegex content) \<Longrightarrow> length groups = 7"
  by (drule rx_scan_matched) (simp add: includeRegex_def)

lemma rx_search_sound:
  "rx_search r s = Some ps \<Longrightarrow> length ps = length r"
proof (induction s)
  case Nil
  then show ?case
    by (cases "rx_match r []") (auto dest: rx_match_sound)
next
  case (Cons c cs)
  then show ?case
    by (cases "rx_match r (c # cs)") (auto dest: rx_match_sound)
qed

lemma rx_search_pkgRegex_groups:
  "rx_search pkgRegex filename = Some pkgMatch \<Longrightarrow> length pkgMatch = 4"
  by (drule rx_search_sound) (simp add: pkgRegex_def)

section \<open>Properties of the include resolver\<close>

subsection \<open>Replacing the matches\<close>

lemma replace_matches_chars: "replace_matches cb (map Chr s) = Inr s"
  by (induction s) auto

lemma replace_matches_InrD:
  "replace_matches cb segs = Inr out \<Longrightarrow>
     \<exists>pieces. list_all2 (\<lambda>g piece. case g of Chr c \<Rightarrow> piece = [c]
                                       | Matched groups \<Rightarrow> cb groups = Inr piece) segs pieces
              \<and> out = concat pieces"
proof (induction cb segs arbitrary: out rule: replace_matches.induct)
  case (1 cb)
  then show ?case by auto
next
  case (2 cb c segs)
  from "2.prems" obtain out' where r: "replace_matches cb segs = Inr out'" and o: "out = c # out'"
    by (auto split: sum.splits)
  from "2.IH" [OF r] obtain pieces where
    "list_all2 (\<lambda>g piece. case g of Chr c \<Rightarrow> piece = [c]
                 | Matched groups \<Rightarrow> cb groups = Inr piece) segs pieces"
    "out' = concat pieces" by blast
  with o have
    "list_all2 (\<lambda>g piece. case g of Chr c \<Rightarrow> piece = [c]
                 | Matched groups \<Rightarrow> cb groups = Inr piece) (Chr c # segs) ([c] # pieces)
     \<and> out = concat ([c] # pieces)" by simp
  then show ?case by blast
next
  case (3 cb groups segs)
  from "3.prems" obtain r out' where c: "cb groups = Inr r"
    and r: "replace_matches cb segs = Inr out'" and o: "out = r @ out'"
    by (auto split: sum.splits)
  from "3.IH" [OF c r] obtain pieces where
    "list_all2 (\<lambda>g piece. case g of Chr c \<Rightarrow> piece = [c]
                 | Matched groups \<Rightarrow> cb groups = Inr piece) segs pieces"
    "out' = concat pieces" by blast
  with o c have
    "list_all2 (\<lambda>g piece. case g of Chr c \<Rightarrow> piece = [c]
                 | Matched groups \<Rightarrow> cb groups = Inr piece) (Matched groups # segs) (r # pieces)
     \<and> out = concat (r # pieces)" by simp
  then show ?case by blast
qed

lemma replace_matches_InrI:
  "list_all2 (\<lambda>g piece. case g of Chr c \<Rightarrow> piece = [c]
                | Matched groups \<Rightarrow> cb groups = Inr piece) segs pieces \<Longrightarrow>
     replace_matches cb segs = Inr (concat pieces)"
proof (induction cb segs arbitrary: pieces rule: replace_matches.induct)
  case (1 cb)
  then show ?case by simp
next
  case (2 cb c segs)
  then show ?case by (auto simp: list_all2_Cons1)
next
  case (3 cb groups segs)
  then show ?case by (auto simp: list_all2_Cons1)
qed

lemma replace_matches_Inr_iff:
  "replace_matches cb segs = Inr out \<longleftrightarrow>
     (\<exists>pieces. list_all2 (\<lambda>g piece. case g of Chr c \<Rightarrow> piece = [c]
                                       | Matched groups \<Rightarrow> cb groups = Inr piece) segs pieces
              \<and> out = concat pieces)"
  using replace_matches_InrD replace_matches_InrI by blast

text \<open>One callback that throws is enough for the call to throw, and what the call throws
  is what one of its callbacks throws: the first, in the order of the matches.\<close>

lemma replace_matches_Inl:
  "groups \<in> set (matches_of segs) \<Longrightarrow> cb groups = Inl e \<Longrightarrow>
     \<exists>e'. replace_matches cb segs = Inl e'"
  by (induction cb segs rule: replace_matches.induct) (auto split: sum.splits)


lemma replace_matches_first_failure:
  "matches_of segs = gs1 @ groups # gs2 \<Longrightarrow> (\<forall>g \<in> set gs1. \<exists>r. cb g = Inr r) \<Longrightarrow>
     cb groups = Inl e \<Longrightarrow> replace_matches cb segs = Inl e"
proof (induction cb segs arbitrary: gs1 rule: replace_matches.induct)
  case (1 cb)
  then show ?case by simp
next
  case (2 cb c segs)
  then show ?case by simp
next
  case (3 cb g segs)
  show ?case
  proof (cases gs1)
    case Nil
    with "3.prems" show ?thesis by simp
  next
    case (Cons g' gs1')
    with "3.prems"(1) have g: "g' = g" and m: "matches_of segs = gs1' @ groups # gs2"
      by simp_all
    from "3.prems"(2) Cons g obtain r where r: "cb g = Inr r"
      by auto
    from "3.prems"(2) Cons have "\<forall>g \<in> set gs1'. \<exists>r. cb g = Inr r"
      by simp
    from "3.IH" [OF r m this "3.prems"(3)] r show ?thesis
      by simp
  qed
qed


lemma Matched_matches_of: "Matched groups \<in> set segs \<longleftrightarrow> groups \<in> set (matches_of segs)"
  by (induction segs rule: matches_of.induct) auto

lemma directive_targets_filenames:
  "directive_targets E content workingDir rootDir =
     map (include_target E workingDir rootDir) (directive_filenames content)"
  by (simp add: directive_targets_def directive_filenames_def)

text \<open>The resolver in terms of what its callback makes of every directive.\<close>

lemma processIncludes_callback:
  "processIncludes E (Suc stack) content workingDir rootDir =
     replace_matches (\<lambda>groups. include_result E stack workingDir rootDir (groups ! 3))
       (rx_scan includeRegex content)"
  by (simp add: include_result_def Let_def)

text \<open>The resolver returns exactly when its callback returns for every directive, and the
  output then holds, in place of each directive, what the callback returned for it.\<close>

lemma processIncludes_returns_iff:
  "processIncludes E (Suc stack) content workingDir rootDir = Inr out \<longleftrightarrow>
     (\<exists>pieces.
        list_all2 (\<lambda>g piece. case g of
                      Chr c \<Rightarrow> piece = [c]
                    | Matched groups \<Rightarrow>
                        include_result E stack workingDir rootDir (groups ! 3) = Inr piece)
          (rx_scan includeRegex content) pieces
      \<and> out = concat pieces)"
  unfolding processIncludes_callback by (rule replace_matches_Inr_iff)

lemma list_all2_pieces_chars:
  "list_all2 (\<lambda>g piece. case g of Chr c \<Rightarrow> piece = [c] | Matched groups \<Rightarrow> P groups piece)
     segs pieces \<Longrightarrow>
   list_all2 (\<lambda>g piece. \<forall>c. g = Chr c \<longrightarrow> piece = [c]) segs pieces"
  by (erule list_all2_mono) (auto split: seg.splits)

subsection \<open>Documents without directives\<close>

text \<open>
  Claim C7. A document in which the directive pattern matches at no position is returned
  unchanged, whatever the directories and the disk: on directive-free input the resolver
  is the identity.
\<close>

theorem processIncludes_identity:
  "rx_search includeRegex content = None \<Longrightarrow>
     processIncludes E (Suc stack) content workingDir rootDir = Inr content"
  by (simp add: rx_scan_no_match replace_matches_chars)

text \<open>An instance: a document with an element that resembles a directive but has no
  \<^verbatim>\<open>filename\<close> attribute.\<close>

theorem processIncludes_identity_witness:
  "rx_search includeRegex ''<robot name=\"r\"><xacro:include file=\"a.xacro\"/></robot>'' = None
 \<and> processIncludes (disk []) 1 ''<robot name=\"r\"><xacro:include file=\"a.xacro\"/></robot>''
       ''/srv/public'' ''/srv/public''
     = Inr ''<robot name=\"r\"><xacro:include file=\"a.xacro\"/></robot>''"
proof -
  have h: "rx_search includeRegex ''<robot name=\"r\"><xacro:include file=\"a.xacro\"/></robot>'' = None"
    by (simp add: includeRegex_def is_space_def)
  show ?thesis
    using processIncludes_identity [OF h, of "disk []" 0 "''/srv/public''" "''/srv/public''"] h
    by simp
qed

subsection \<open>The text outside the directives\<close>

text \<open>
  Claim C9. Whenever the resolver returns an output, the input is the concatenation of
  its segments (the characters outside the matched directives and the matched
  directives), the output is the concatenation of one piece per segment in the same
  order, the piece of a character outside the directives is that character, and every
  other segment is a span the directive pattern matches: the resolver replaces the spans
  of the matched directives and nothing else.
\<close>

theorem processIncludes_frame:
  assumes "processIncludes E stack content workingDir rootDir = Inr out"
  shows "\<exists>pieces.
           content = concat (map seg_text (rx_scan includeRegex content))
         \<and> out = concat pieces
         \<and> list_all2 (\<lambda>g piece. \<forall>c. g = Chr c \<longrightarrow> piece = [c]) (rx_scan includeRegex content) pieces
         \<and> (\<forall>groups. Matched groups \<in> set (rx_scan includeRegex content) \<longrightarrow>
               (\<exists>rest. rx_match includeRegex (concat groups @ rest) = Some (groups, rest)))"
proof -
  from assms obtain stack' where f: "stack = Suc stack'"
    by (cases stack) auto
  with assms processIncludes_returns_iff [of E stack' content workingDir rootDir out]
  obtain pieces where
    p: "list_all2 (\<lambda>g piece. case g of
                      Chr c \<Rightarrow> piece = [c]
                    | Matched groups \<Rightarrow>
                        include_result E stack' workingDir rootDir (groups ! 3) = Inr piece)
          (rx_scan includeRegex content) pieces"
    and o: "out = concat pieces"
    by blast
  have m: "\<forall>groups. Matched groups \<in> set (rx_scan includeRegex content) \<longrightarrow>
               (\<exists>rest. rx_match includeRegex (concat groups @ rest) = Some (groups, rest))"
    using rx_scan_matched by blast
  from list_all2_pieces_chars [OF p] o m rx_scan_text [of includeRegex content]
  show ?thesis by auto
qed

text \<open>An instance: the text before and behind a directive with a missing file.\<close>

theorem processIncludes_frame_witness:
  "processIncludes (disk []) 1 (''<a/>'' @ directive ''m.xacro'' @ ''<b/>'') ''/srv/public'' ''/srv/public''
     = Inr ''<a/><!-- File not found: m.xacro --><b/>''
 \<and> (\<exists>pieces.
       ''<a/>'' @ directive ''m.xacro'' @ ''<b/>''
         = concat (map seg_text (rx_scan includeRegex (''<a/>'' @ directive ''m.xacro'' @ ''<b/>'')))
     \<and> ''<a/><!-- File not found: m.xacro --><b/>'' = concat pieces
     \<and> list_all2 (\<lambda>g piece. \<forall>c. g = Chr c \<longrightarrow> piece = [c])
           (rx_scan includeRegex (''<a/>'' @ directive ''m.xacro'' @ ''<b/>'')) pieces)"
proof -
  have h: "processIncludes (disk []) 1 (''<a/>'' @ directive ''m.xacro'' @ ''<b/>'') ''/srv/public'' ''/srv/public''
     = Inr ''<a/><!-- File not found: m.xacro --><b/>''"
    by code_simp
  from processIncludes_frame [OF h] h show ?thesis by blast
qed

subsection \<open>A document that is one directive\<close>

lemma first_some_greedy:
  "m \<le> n \<Longrightarrow> f n = Some y \<Longrightarrow> first_some f (rev [m ..< Suc n]) = Some y"
  by simp

lemma rx_match_tail:
  "rx_match [Lit ''\"'', Rep is_space 0 True, Lit ''/>''] ''\"/>'' = Some ([''\"'', [], ''/>''], [])"
  by (simp add: is_space_def)

lemma rx_match_filename:
  assumes "filename \<noteq> []" and "CHR 0x22 \<notin> set filename"
  shows "rx_match [Rep (\<lambda>c. c \<noteq> CHR 0x22) 1 True, Lit ''\"'', Rep is_space 0 True, Lit ''/>'']
           (filename @ ''\"/>'')
         = Some ([filename, ''\"'', [], ''/>''], [])"
proof -
  have tw: "takeWhile (\<lambda>c. c \<noteq> CHR 0x22) (filename @ ''\"/>'') = filename"
    using assms(2) by (auto simp: takeWhile_append)
  have len: "1 \<le> length filename"
    using assms(1) by (cases filename) auto
  have inner: "(case rx_match [Lit ''\"'', Rep is_space 0 True, Lit ''/>'']
                   (drop (length filename) (filename @ ''\"/>'')) of
                None \<Rightarrow> None
              | Some (ps, rest) \<Rightarrow> Some (take (length filename) (filename @ ''\"/>'') # ps, rest))
             = Some ([filename, ''\"'', [], ''/>''], [])"
    using rx_match_tail by simp
  have "first_some (\<lambda>k. case rx_match [Lit ''\"'', Rep is_space 0 True, Lit ''/>'']
                                (drop k (filename @ ''\"/>'')) of
                          None \<Rightarrow> None
                        | Some (ps, rest) \<Rightarrow> Some (take k (filename @ ''\"/>'') # ps, rest))
          (rev [1 ..< Suc (length filename)])
        = Some ([filename, ''\"'', [], ''/>''], [])"
    by (rule first_some_greedy [OF len]) (rule inner)
  then show ?thesis
    unfolding rx_match.simps(4) Let_def tw by simp
qed

lemma rx_match_directive:
  assumes "filename \<noteq> []" and "CHR 0x22 \<notin> set filename"
  shows "rx_match includeRegex (directive filename)
         = Some ([''<xacro:include'', '' '', ''filename=\"'', filename, ''\"'', [], ''/>''], [])"
proof -
  have d: "directive filename = ''<xacro:include'' @ '' '' @ ''filename=\"'' @ (filename @ ''\"/>'')"
    by (simp add: directive_def)
  show ?thesis
    unfolding d includeRegex_def
    using rx_match_filename [OF assms]
    by (simp add: is_space_def)
qed

lemma rx_scan_directive:
  assumes "filename \<noteq> []" and "CHR 0x22 \<notin> set filename"
  shows "rx_scan includeRegex (directive filename)
         = [Matched [''<xacro:include'', '' '', ''filename=\"'', filename, ''\"'', [], ''/>'']]"
proof -
  let ?ps = "[''<xacro:include'', '' '', ''filename=\"'', filename, ''\"'', [], ''/>'']"
  obtain c cs where cs: "directive filename = c # cs"
    by (simp add: directive_def)
  have cc: "concat ?ps = directive filename"
    by (simp add: directive_def)
  have e: "rx_match includeRegex [] = None"
    by (simp add: includeRegex_def)
  have "rx_scan includeRegex (c # cs) = Matched ?ps # rx_scan includeRegex (drop (length (concat ?ps)) (c # cs))"
    using rx_match_directive [OF assms] cs cc
    by (simp del: concat.simps)
  also have "drop (length (concat ?ps)) (c # cs) = []"
    unfolding cc cs by simp
  finally show ?thesis
    using cs e by simp
qed

lemma replace_matches_single: "replace_matches cb [Matched g] = cb g"
  by (auto split: sum.splits)

lemma processIncludes_directive:
  assumes "filename \<noteq> []" and "CHR 0x22 \<notin> set filename"
  shows "processIncludes E (Suc stack) (directive filename) workingDir rootDir =
           (case fs_lookup E (include_target E workingDir rootDir filename) of
              Missing \<Rightarrow> Inr (placeholder filename)
            | Unreadable msg \<Rightarrow> Inl (ReadFailure msg)
            | File body \<Rightarrow>
                processIncludes E stack (stripped body)
                  (path_dirname E (include_target E workingDir rootDir filename)) rootDir)"
  unfolding processIncludes.simps rx_scan_directive [OF assms] replace_matches_single
  by (simp add: Let_def del: processIncludes.simps split: fs_entry.splits)

subsection \<open>The room on the call stack\<close>








subsection \<open>A directive that is dropped\<close>

text \<open>
  Claim C4 asks that every directive be accounted for in the output, by the resolved
  content of its file or by a placeholder. The code breaks this for directives of an
  included file: the pattern for the XML declaration, \<^verbatim>\<open>/<\?xml.*\?>/g\<close>, is greedy and
  deletes through the last \<^verbatim>\<open>?>\<close> of the line, with whatever stands between the
  declaration and that \<^verbatim>\<open>?>\<close>. For the file \<^verbatim>\<open>part.xacro\<close> below, written on one line with
  a processing instruction behind the closing tag, that is the whole content: the
  directive for \<^verbatim>\<open>gone.xacro\<close> is deleted with the declaration, and the output holds
  neither content nor placeholder for it, while the resolver returns and the endpoint
  answers 200. With the declaration on a line of its own the same directive gets its
  placeholder. The comment at the three \<^verbatim>\<open>replace\<close> calls says that the XML header and the
  robot tags of the included file are removed and only the content is kept.
\<close>

theorem processIncludes_drops_directive:
  "directive_filenames
     (''<?xml version=\"1.0\"?><robot name=\"r\">'' @ directive ''gone.xacro'' @ ''</robot><?pi x?>'')
     = [''gone.xacro'']
 \<and> stripped (''<?xml version=\"1.0\"?><robot name=\"r\">'' @ directive ''gone.xacro'' @ ''</robot><?pi x?>'')
     = []
 \<and> (\<forall>stack.
       processIncludes
         (disk [(''/srv/public/main.xacro'', File (''<robot name=\"m\">'' @ directive ''part.xacro'' @ ''</robot>'')),
                (''/srv/public/part.xacro'',
                 File (''<?xml version=\"1.0\"?><robot name=\"r\">'' @ directive ''gone.xacro'' @ ''</robot><?pi x?>''))])
         (Suc (Suc stack)) (directive ''part.xacro'') ''/srv/public'' ''/srv/public'' = Inr [])
 \<and> xacro_to_urdf
       (disk [(''/srv/public/main.xacro'', File (''<robot name=\"m\">'' @ directive ''part.xacro'' @ ''</robot>'')),
              (''/srv/public/part.xacro'',
               File (''<?xml version=\"1.0\"?><robot name=\"r\">'' @ directive ''gone.xacro'' @ ''</robot><?pi x?>''))])
       8 (Some ''main.xacro'') = Response 200 ''<robot name=\"m\"></robot>''
 \<and> processIncludes
       (disk [(''/srv/public/part.xacro'',
               File (''<?xml version=\"1.0\"?>'' @ [CHR 0x0A] @ ''<robot name=\"r\">'' @ directive ''gone.xacro''
                     @ ''</robot><?pi x?>''))])
       8 (directive ''part.xacro'') ''/srv/public'' ''/srv/public''
     = Inr ([CHR 0x0A] @ ''<!-- File not found: gone.xacro -->'' @ ''<?pi x?>'')"
proof -
  let ?body = "''<?xml version=\"1.0\"?><robot name=\"r\">'' @ directive ''gone.xacro'' @ ''</robot><?pi x?>''"
  let ?D = "disk [(''/srv/public/main.xacro'', File (''<robot name=\"m\">'' @ directive ''part.xacro'' @ ''</robot>'')),
                  (''/srv/public/part.xacro'', File ?body)]"
  have names: "directive_filenames ?body = [''gone.xacro'']"
    by code_simp
  have st: "stripped ?body = []"
    by code_simp
  have tgt: "include_target ?D ''/srv/public'' ''/srv/public'' ''part.xacro'' = ''/srv/public/part.xacro''"
    by code_simp
  have lk: "fs_lookup ?D ''/srv/public/part.xacro'' = File ?body"
    by (simp add: disk_def fs_of_def)
  have none: "rx_scan includeRegex [] = []"
    by (simp add: includeRegex_def)
  have "processIncludes ?D (Suc (Suc stack)) (directive ''part.xacro'') ''/srv/public'' ''/srv/public''
      = Inr []" for stack
  proof -
    have "processIncludes ?D (Suc (Suc stack)) (directive ''part.xacro'') ''/srv/public'' ''/srv/public''
        = (case fs_lookup ?D (include_target ?D ''/srv/public'' ''/srv/public'' ''part.xacro'') of
              Missing \<Rightarrow> Inr (placeholder ''part.xacro'')
            | Unreadable msg \<Rightarrow> Inl (ReadFailure msg)
            | File body \<Rightarrow>
                processIncludes ?D (Suc stack) (stripped body)
                  (path_dirname ?D (include_target ?D ''/srv/public'' ''/srv/public'' ''part.xacro''))
                  ''/srv/public'')"
      by (rule processIncludes_directive) simp_all
    also have "\<dots> = processIncludes ?D (Suc stack) []
                  (path_dirname ?D ''/srv/public/part.xacro'') ''/srv/public''"
      unfolding tgt lk by (simp only: fs_entry.case st)
    also have "\<dots> = Inr []"
      unfolding processIncludes.simps none by simp
    finally show ?thesis .
  qed
  moreover have "xacro_to_urdf ?D 8 (Some ''main.xacro'') = Response 200 ''<robot name=\"m\"></robot>''"
    by code_simp
  moreover have "processIncludes
       (disk [(''/srv/public/part.xacro'',
               File (''<?xml version=\"1.0\"?>'' @ [CHR 0x0A] @ ''<robot name=\"r\">'' @ directive ''gone.xacro''
                     @ ''</robot><?pi x?>''))])
       8 (directive ''part.xacro'') ''/srv/public'' ''/srv/public''
     = Inr ([CHR 0x0A] @ ''<!-- File not found: gone.xacro -->'' @ ''<?pi x?>'')"
    by code_simp
  ultimately show ?thesis
    using names st by blast
qed

subsection \<open>Acyclic and cyclic includes\<close>





subsection \<open>Files that cannot be read\<close>

lemma processIncludes_unreadable:
  assumes "t \<in> set (directive_targets E content workingDir rootDir)"
      and "fs_lookup E t = Unreadable msg"
  shows "\<exists>e. processIncludes E stack content workingDir rootDir = Inl e"
proof (cases stack)
  case 0
  then show ?thesis by simp
next
  case (Suc n)
  from assms(1) obtain groups where g: "groups \<in> set (matches_of (rx_scan includeRegex content))"
    and t: "t = include_target E workingDir rootDir (groups ! 3)"
    by (auto simp: directive_targets_def)
  from assms(2) t have "include_result E n workingDir rootDir (groups ! 3) = Inl (ReadFailure msg)"
    by (simp add: include_result_def Let_def)
  from replace_matches_Inl [OF g, of "\<lambda>groups. include_result E n workingDir rootDir (groups ! 3)", OF this]
  show ?thesis
    unfolding Suc processIncludes_callback .
qed

lemma processIncludes_nested_failure:
  assumes "t \<in> set (directive_targets E content workingDir rootDir)"
      and "fs_lookup E t = File body"
      and "processIncludes E stack (stripped body) (path_dirname E t) rootDir = Inl e"
  shows "\<exists>e'. processIncludes E (Suc stack) content workingDir rootDir = Inl e'"
proof -
  from assms(1) obtain groups where g: "groups \<in> set (matches_of (rx_scan includeRegex content))"
    and t: "t = include_target E workingDir rootDir (groups ! 3)"
    by (auto simp: directive_targets_def)
  from assms(2,3) t have "include_result E stack workingDir rootDir (groups ! 3) = Inl e"
    by (simp add: include_result_def Let_def del: processIncludes.simps)
  from replace_matches_Inl [OF g, of "\<lambda>groups. include_result E stack workingDir rootDir (groups ! 3)", OF this]
  show ?thesis
    unfolding processIncludes_callback .
qed

lemma processIncludes_first_failure:
  assumes "directive_filenames content = earlier @ filename # later"
      and "\<forall>f \<in> set earlier. returns (include_result E stack workingDir rootDir f)"
      and "include_result E stack workingDir rootDir filename = Inl e"
  shows "processIncludes E (Suc stack) content workingDir rootDir = Inl e"
proof -
  from assms(1) obtain gs1 groups gs2 where
    m: "matches_of (rx_scan includeRegex content) = gs1 @ groups # gs2"
    and f1: "earlier = map (\<lambda>groups. groups ! 3) gs1" and f: "filename = groups ! 3"
    unfolding directive_filenames_def
    by (auto simp: map_eq_append_conv map_eq_Cons_conv)
  have "\<forall>g \<in> set gs1. \<exists>r. include_result E stack workingDir rootDir (g ! 3) = Inr r"
  proof
    fix g assume "g \<in> set gs1"
    with f1 assms(2) have "returns (include_result E stack workingDir rootDir (g ! 3))"
      by simp
    then show "\<exists>r. include_result E stack workingDir rootDir (g ! 3) = Inr r"
      by (cases "include_result E stack workingDir rootDir (g ! 3)") (simp_all add: returns_def)
  qed
  from replace_matches_first_failure [OF m,
      of "\<lambda>groups. include_result E stack workingDir rootDir (groups ! 3)", OF this] assms(3) f
  show ?thesis
    unfolding processIncludes_callback by simp
qed

lemma include_result_Unreadable:
  "fs_lookup E (include_target E workingDir rootDir filename) = Unreadable msg \<Longrightarrow>
     include_result E stack workingDir rootDir filename = Inl (ReadFailure msg)"
  by (simp add: include_result_def Let_def)

text \<open>
  Claim C5, amended. When the file of a directive exists but cannot be read, the
  resolution of the document is aborted as a whole: wherever the directive stands and
  whatever room the stack has, the resolver throws and returns no document, so the
  results of the sibling directives are lost; a failure inside an included file aborts
  the including document in the same way. What is thrown is the failure of the first
  directive, in document order, that fails, whatever stands behind it: when the
  directives before the unreadable file's resolve, it is the read error, and otherwise
  the failure met before it (another read error, or the exhausted stack of a cyclic
  include). The endpoint answers 500 with the message of that failure, which differs
  from 200 (success) and 404 (the top-level file is missing): with the message of the
  read error when the directives before it resolve.
\<close>

theorem read_failure_aborts:
  "(t \<in> set (directive_targets E content workingDir rootDir) \<and> fs_lookup E t = Unreadable msg
      \<longrightarrow> (\<exists>e'. processIncludes E stack content workingDir rootDir = Inl e'))
 \<and> (t \<in> set (directive_targets E content workingDir rootDir) \<and> fs_lookup E t = File body
      \<and> processIncludes E stack (stripped body) (path_dirname E t) rootDir = Inl e
      \<longrightarrow> (\<exists>e'. processIncludes E (Suc stack) content workingDir rootDir = Inl e'))
 \<and> (directive_filenames content = earlier @ filename # later
      \<and> (\<forall>f \<in> set earlier. returns (include_result E stack workingDir rootDir f))
      \<and> include_result E stack workingDir rootDir filename = Inl e
      \<longrightarrow> processIncludes E (Suc stack) content workingDir rootDir = Inl e)
 \<and> (directive_filenames content = earlier @ filename # later
      \<and> (\<forall>f \<in> set earlier. returns (include_result E stack workingDir rootDir f))
      \<and> fs_lookup E (include_target E workingDir rootDir filename) = Unreadable msg
      \<longrightarrow> processIncludes E (Suc stack) content workingDir rootDir = Inl (ReadFailure msg))
 \<and> (fileRelativePath \<noteq> [] \<and> fs_lookup E (path_resolve E (public_dir E) fileRelativePath) = File content
      \<and> t \<in> set (directive_targets E content
                    (path_dirname E (path_resolve E (public_dir E) fileRelativePath)) (public_dir E))
      \<and> fs_lookup E t = Unreadable msg
      \<longrightarrow> (\<exists>e'. xacro_to_urdf E stack (Some fileRelativePath) = Response 500 (message e')))
 \<and> (fileRelativePath \<noteq> [] \<and> fs_lookup E (path_resolve E (public_dir E) fileRelativePath) = File content
      \<and> directive_filenames content = earlier @ filename # later
      \<and> (\<forall>f \<in> set earlier. returns (include_result E stack
                 (path_dirname E (path_resolve E (public_dir E) fileRelativePath)) (public_dir E) f))
      \<and> include_result E stack
            (path_dirname E (path_resolve E (public_dir E) fileRelativePath)) (public_dir E) filename = Inl e
      \<longrightarrow> xacro_to_urdf E (Suc stack) (Some fileRelativePath) = Response 500 (message e))
 \<and> (fileRelativePath \<noteq> [] \<and> fs_lookup E (path_resolve E (public_dir E) fileRelativePath) = File content
      \<and> directive_filenames content = earlier @ filename # later
      \<and> (\<forall>f \<in> set earlier. returns (include_result E stack
                 (path_dirname E (path_resolve E (public_dir E) fileRelativePath)) (public_dir E) f))
      \<and> fs_lookup E (include_target E
            (path_dirname E (path_resolve E (public_dir E) fileRelativePath)) (public_dir E) filename)
          = Unreadable msg
      \<longrightarrow> xacro_to_urdf E (Suc stack) (Some fileRelativePath) = Response 500 msg)"
proof (intro conjI impI; (elim conjE)?)
  assume "t \<in> set (directive_targets E content workingDir rootDir)" "fs_lookup E t = Unreadable msg"
  then show "\<exists>e'. processIncludes E stack content workingDir rootDir = Inl e'"
    by (rule processIncludes_unreadable)
next
  assume "t \<in> set (directive_targets E content workingDir rootDir)" "fs_lookup E t = File body"
    "processIncludes E stack (stripped body) (path_dirname E t) rootDir = Inl e"
  then show "\<exists>e'. processIncludes E (Suc stack) content workingDir rootDir = Inl e'"
    by (rule processIncludes_nested_failure)
next
  assume "directive_filenames content = earlier @ filename # later"
    "\<forall>f \<in> set earlier. returns (include_result E stack workingDir rootDir f)"
    "include_result E stack workingDir rootDir filename = Inl e"
  then show "processIncludes E (Suc stack) content workingDir rootDir = Inl e"
    by (rule processIncludes_first_failure)
next
  assume "directive_filenames content = earlier @ filename # later"
    "\<forall>f \<in> set earlier. returns (include_result E stack workingDir rootDir f)"
    and "fs_lookup E (include_target E workingDir rootDir filename) = Unreadable msg"
  then show "processIncludes E (Suc stack) content workingDir rootDir = Inl (ReadFailure msg)"
    by (intro processIncludes_first_failure include_result_Unreadable)
next
  assume f: "fileRelativePath \<noteq> []" "fs_lookup E (path_resolve E (public_dir E) fileRelativePath) = File content"
    and t: "t \<in> set (directive_targets E content
                    (path_dirname E (path_resolve E (public_dir E) fileRelativePath)) (public_dir E))"
      "fs_lookup E t = Unreadable msg"
  from processIncludes_unreadable [OF t] obtain e' where
    "processIncludes E stack content
       (path_dirname E (path_resolve E (public_dir E) fileRelativePath)) (public_dir E) = Inl e'"
    by blast
  with f have "xacro_to_urdf E stack (Some fileRelativePath) = Response 500 (message e')"
    by (simp add: xacro_to_urdf_def Let_def del: processIncludes.simps)
  then show "\<exists>e'. xacro_to_urdf E stack (Some fileRelativePath) = Response 500 (message e')" ..
next
  assume f: "fileRelativePath \<noteq> []" "fs_lookup E (path_resolve E (public_dir E) fileRelativePath) = File content"
    and d: "directive_filenames content = earlier @ filename # later"
      "\<forall>f \<in> set earlier. returns (include_result E stack
                 (path_dirname E (path_resolve E (public_dir E) fileRelativePath)) (public_dir E) f)"
      "include_result E stack
            (path_dirname E (path_resolve E (public_dir E) fileRelativePath)) (public_dir E) filename = Inl e"
  from processIncludes_first_failure [OF d] f
  show "xacro_to_urdf E (Suc stack) (Some fileRelativePath) = Response 500 (message e)"
    by (simp add: xacro_to_urdf_def Let_def del: processIncludes.simps)
next
  assume f: "fileRelativePath \<noteq> []" "fs_lookup E (path_resolve E (public_dir E) fileRelativePath) = File content"
    and d: "directive_filenames content = earlier @ filename # later"
      "\<forall>f \<in> set earlier. returns (include_result E stack
                 (path_dirname E (path_resolve E (public_dir E) fileRelativePath)) (public_dir E) f)"
    and u: "fs_lookup E (include_target E
            (path_dirname E (path_resolve E (public_dir E) fileRelativePath)) (public_dir E) filename)
          = Unreadable msg"
  from processIncludes_first_failure [OF d include_result_Unreadable [OF u]] f
  show "xacro_to_urdf E (Suc stack) (Some fileRelativePath) = Response 500 msg"
    by (simp add: xacro_to_urdf_def Let_def message_def del: processIncludes.simps)
qed

text \<open>
  An instance: documents that include a readable and an unreadable file, in either
  order, a file that includes itself before an unreadable file, two unreadable files,
  an unreadable file inside an included file, and the answers of the endpoint.
\<close>

theorem read_failure_aborts_witness:
  "directive_targets (disk [(''/srv/public/main.xacro'', File (directive ''ok.xacro'' @ directive ''locked.xacro'')),
            (''/srv/public/main2.xacro'', File (directive ''locked.xacro'' @ directive ''ok.xacro'')),
            (''/srv/public/main3.xacro'', File (directive ''loop.xacro'' @ directive ''locked.xacro'')),
            (''/srv/public/main4.xacro'', File (directive ''locked.xacro'' @ directive ''broken.xacro'')),
            (''/srv/public/loop.xacro'', File (directive ''loop.xacro'')),
            (''/srv/public/locked.xacro'', Unreadable ''EACCES: permission denied''),
            (''/srv/public/broken.xacro'', Unreadable ''EIO: i/o error''),
            (''/srv/public/ok.xacro'', File ''<link name=\"ok\"/>'')]) (directive ''ok.xacro'' @ directive ''locked.xacro'') ''/srv/public'' ''/srv/public''
     = [''/srv/public/ok.xacro'', ''/srv/public/locked.xacro'']
 \<and> fs_lookup (disk [(''/srv/public/main.xacro'', File (directive ''ok.xacro'' @ directive ''locked.xacro'')),
            (''/srv/public/main2.xacro'', File (directive ''locked.xacro'' @ directive ''ok.xacro'')),
            (''/srv/public/main3.xacro'', File (directive ''loop.xacro'' @ directive ''locked.xacro'')),
            (''/srv/public/main4.xacro'', File (directive ''locked.xacro'' @ directive ''broken.xacro'')),
            (''/srv/public/loop.xacro'', File (directive ''loop.xacro'')),
            (''/srv/public/locked.xacro'', Unreadable ''EACCES: permission denied''),
            (''/srv/public/broken.xacro'', Unreadable ''EIO: i/o error''),
            (''/srv/public/ok.xacro'', File ''<link name=\"ok\"/>'')]) ''/srv/public/locked.xacro'' = Unreadable ''EACCES: permission denied''
 \<and> (\<exists>e'. processIncludes (disk [(''/srv/public/main.xacro'', File (directive ''ok.xacro'' @ directive ''locked.xacro'')),
            (''/srv/public/main2.xacro'', File (directive ''locked.xacro'' @ directive ''ok.xacro'')),
            (''/srv/public/main3.xacro'', File (directive ''loop.xacro'' @ directive ''locked.xacro'')),
            (''/srv/public/main4.xacro'', File (directive ''locked.xacro'' @ directive ''broken.xacro'')),
            (''/srv/public/loop.xacro'', File (directive ''loop.xacro'')),
            (''/srv/public/locked.xacro'', Unreadable ''EACCES: permission denied''),
            (''/srv/public/broken.xacro'', Unreadable ''EIO: i/o error''),
            (''/srv/public/ok.xacro'', File ''<link name=\"ok\"/>'')]) 5 (directive ''ok.xacro'' @ directive ''locked.xacro'') ''/srv/public'' ''/srv/public'' = Inl e')
 \<and> fs_lookup (disk [(''/srv/public/main.xacro'', File (directive ''ok.xacro'' @ directive ''locked.xacro'')),
            (''/srv/public/main2.xacro'', File (directive ''locked.xacro'' @ directive ''ok.xacro'')),
            (''/srv/public/main3.xacro'', File (directive ''loop.xacro'' @ directive ''locked.xacro'')),
            (''/srv/public/main4.xacro'', File (directive ''locked.xacro'' @ directive ''broken.xacro'')),
            (''/srv/public/loop.xacro'', File (directive ''loop.xacro'')),
            (''/srv/public/locked.xacro'', Unreadable ''EACCES: permission denied''),
            (''/srv/public/broken.xacro'', Unreadable ''EIO: i/o error''),
            (''/srv/public/ok.xacro'', File ''<link name=\"ok\"/>'')]) ''/srv/public/main2.xacro'' = File (directive ''locked.xacro'' @ directive ''ok.xacro'')
 \<and> (\<exists>e'. processIncludes (disk [(''/srv/public/main.xacro'', File (directive ''ok.xacro'' @ directive ''locked.xacro'')),
            (''/srv/public/main2.xacro'', File (directive ''locked.xacro'' @ directive ''ok.xacro'')),
            (''/srv/public/main3.xacro'', File (directive ''loop.xacro'' @ directive ''locked.xacro'')),
            (''/srv/public/main4.xacro'', File (directive ''locked.xacro'' @ directive ''broken.xacro'')),
            (''/srv/public/loop.xacro'', File (directive ''loop.xacro'')),
            (''/srv/public/locked.xacro'', Unreadable ''EACCES: permission denied''),
            (''/srv/public/broken.xacro'', Unreadable ''EIO: i/o error''),
            (''/srv/public/ok.xacro'', File ''<link name=\"ok\"/>'')]) (Suc 1) (''<a/>'' @ directive ''main2.xacro'') ''/srv/public'' ''/srv/public'' = Inl e')
 \<and> directive_filenames (directive ''ok.xacro'' @ directive ''locked.xacro'') = [''ok.xacro''] @ ''locked.xacro'' # []
 \<and> returns (include_result (disk [(''/srv/public/main.xacro'', File (directive ''ok.xacro'' @ directive ''locked.xacro'')),
            (''/srv/public/main2.xacro'', File (directive ''locked.xacro'' @ directive ''ok.xacro'')),
            (''/srv/public/main3.xacro'', File (directive ''loop.xacro'' @ directive ''locked.xacro'')),
            (''/srv/public/main4.xacro'', File (directive ''locked.xacro'' @ directive ''broken.xacro'')),
            (''/srv/public/loop.xacro'', File (directive ''loop.xacro'')),
            (''/srv/public/locked.xacro'', Unreadable ''EACCES: permission denied''),
            (''/srv/public/broken.xacro'', Unreadable ''EIO: i/o error''),
            (''/srv/public/ok.xacro'', File ''<link name=\"ok\"/>'')]) 1 ''/srv/public'' ''/srv/public'' ''ok.xacro'')
 \<and> processIncludes (disk [(''/srv/public/main.xacro'', File (directive ''ok.xacro'' @ directive ''locked.xacro'')),
            (''/srv/public/main2.xacro'', File (directive ''locked.xacro'' @ directive ''ok.xacro'')),
            (''/srv/public/main3.xacro'', File (directive ''loop.xacro'' @ directive ''locked.xacro'')),
            (''/srv/public/main4.xacro'', File (directive ''locked.xacro'' @ directive ''broken.xacro'')),
            (''/srv/public/loop.xacro'', File (directive ''loop.xacro'')),
            (''/srv/public/locked.xacro'', Unreadable ''EACCES: permission denied''),
            (''/srv/public/broken.xacro'', Unreadable ''EIO: i/o error''),
            (''/srv/public/ok.xacro'', File ''<link name=\"ok\"/>'')]) (Suc 1) (directive ''ok.xacro'' @ directive ''locked.xacro'') ''/srv/public'' ''/srv/public''
     = Inl (ReadFailure ''EACCES: permission denied'')
 \<and> directive_filenames (directive ''loop.xacro'' @ directive ''locked.xacro'') = [] @ ''loop.xacro'' # [''locked.xacro'']
 \<and> include_result (disk [(''/srv/public/main.xacro'', File (directive ''ok.xacro'' @ directive ''locked.xacro'')),
            (''/srv/public/main2.xacro'', File (directive ''locked.xacro'' @ directive ''ok.xacro'')),
            (''/srv/public/main3.xacro'', File (directive ''loop.xacro'' @ directive ''locked.xacro'')),
            (''/srv/public/main4.xacro'', File (directive ''locked.xacro'' @ directive ''broken.xacro'')),
            (''/srv/public/loop.xacro'', File (directive ''loop.xacro'')),
            (''/srv/public/locked.xacro'', Unreadable ''EACCES: permission denied''),
            (''/srv/public/broken.xacro'', Unreadable ''EIO: i/o error''),
            (''/srv/public/ok.xacro'', File ''<link name=\"ok\"/>'')]) 4 ''/srv/public'' ''/srv/public'' ''loop.xacro'' = Inl StackOverflow
 \<and> processIncludes (disk [(''/srv/public/main.xacro'', File (directive ''ok.xacro'' @ directive ''locked.xacro'')),
            (''/srv/public/main2.xacro'', File (directive ''locked.xacro'' @ directive ''ok.xacro'')),
            (''/srv/public/main3.xacro'', File (directive ''loop.xacro'' @ directive ''locked.xacro'')),
            (''/srv/public/main4.xacro'', File (directive ''locked.xacro'' @ directive ''broken.xacro'')),
            (''/srv/public/loop.xacro'', File (directive ''loop.xacro'')),
            (''/srv/public/locked.xacro'', Unreadable ''EACCES: permission denied''),
            (''/srv/public/broken.xacro'', Unreadable ''EIO: i/o error''),
            (''/srv/public/ok.xacro'', File ''<link name=\"ok\"/>'')]) (Suc 4) (directive ''loop.xacro'' @ directive ''locked.xacro'') ''/srv/public'' ''/srv/public''
     = Inl StackOverflow
 \<and> directive_filenames (directive ''locked.xacro'' @ directive ''broken.xacro'') = [] @ ''locked.xacro'' # [''broken.xacro'']
 \<and> fs_lookup (disk [(''/srv/public/main.xacro'', File (directive ''ok.xacro'' @ directive ''locked.xacro'')),
            (''/srv/public/main2.xacro'', File (directive ''locked.xacro'' @ directive ''ok.xacro'')),
            (''/srv/public/main3.xacro'', File (directive ''loop.xacro'' @ directive ''locked.xacro'')),
            (''/srv/public/main4.xacro'', File (directive ''locked.xacro'' @ directive ''broken.xacro'')),
            (''/srv/public/loop.xacro'', File (directive ''loop.xacro'')),
            (''/srv/public/locked.xacro'', Unreadable ''EACCES: permission denied''),
            (''/srv/public/broken.xacro'', Unreadable ''EIO: i/o error''),
            (''/srv/public/ok.xacro'', File ''<link name=\"ok\"/>'')]) ''/srv/public/broken.xacro'' = Unreadable ''EIO: i/o error''
 \<and> processIncludes (disk [(''/srv/public/main.xacro'', File (directive ''ok.xacro'' @ directive ''locked.xacro'')),
            (''/srv/public/main2.xacro'', File (directive ''locked.xacro'' @ directive ''ok.xacro'')),
            (''/srv/public/main3.xacro'', File (directive ''loop.xacro'' @ directive ''locked.xacro'')),
            (''/srv/public/main4.xacro'', File (directive ''locked.xacro'' @ directive ''broken.xacro'')),
            (''/srv/public/loop.xacro'', File (directive ''loop.xacro'')),
            (''/srv/public/locked.xacro'', Unreadable ''EACCES: permission denied''),
            (''/srv/public/broken.xacro'', Unreadable ''EIO: i/o error''),
            (''/srv/public/ok.xacro'', File ''<link name=\"ok\"/>'')]) (Suc 1) (directive ''locked.xacro'' @ directive ''broken.xacro'') ''/srv/public'' ''/srv/public''
     = Inl (ReadFailure ''EACCES: permission denied'')
 \<and> (\<exists>e'. xacro_to_urdf (disk [(''/srv/public/main.xacro'', File (directive ''ok.xacro'' @ directive ''locked.xacro'')),
            (''/srv/public/main2.xacro'', File (directive ''locked.xacro'' @ directive ''ok.xacro'')),
            (''/srv/public/main3.xacro'', File (directive ''loop.xacro'' @ directive ''locked.xacro'')),
            (''/srv/public/main4.xacro'', File (directive ''locked.xacro'' @ directive ''broken.xacro'')),
            (''/srv/public/loop.xacro'', File (directive ''loop.xacro'')),
            (''/srv/public/locked.xacro'', Unreadable ''EACCES: permission denied''),
            (''/srv/public/broken.xacro'', Unreadable ''EIO: i/o error''),
            (''/srv/public/ok.xacro'', File ''<link name=\"ok\"/>'')]) 5 (Some ''main2.xacro'') = Response 500 (message e'))
 \<and> xacro_to_urdf (disk [(''/srv/public/main.xacro'', File (directive ''ok.xacro'' @ directive ''locked.xacro'')),
            (''/srv/public/main2.xacro'', File (directive ''locked.xacro'' @ directive ''ok.xacro'')),
            (''/srv/public/main3.xacro'', File (directive ''loop.xacro'' @ directive ''locked.xacro'')),
            (''/srv/public/main4.xacro'', File (directive ''locked.xacro'' @ directive ''broken.xacro'')),
            (''/srv/public/loop.xacro'', File (directive ''loop.xacro'')),
            (''/srv/public/locked.xacro'', Unreadable ''EACCES: permission denied''),
            (''/srv/public/broken.xacro'', Unreadable ''EIO: i/o error''),
            (''/srv/public/ok.xacro'', File ''<link name=\"ok\"/>'')]) (Suc 4) (Some ''main3.xacro'') = Response 500 ''Maximum call stack size exceeded''
 \<and> xacro_to_urdf (disk [(''/srv/public/main.xacro'', File (directive ''ok.xacro'' @ directive ''locked.xacro'')),
            (''/srv/public/main2.xacro'', File (directive ''locked.xacro'' @ directive ''ok.xacro'')),
            (''/srv/public/main3.xacro'', File (directive ''loop.xacro'' @ directive ''locked.xacro'')),
            (''/srv/public/main4.xacro'', File (directive ''locked.xacro'' @ directive ''broken.xacro'')),
            (''/srv/public/loop.xacro'', File (directive ''loop.xacro'')),
            (''/srv/public/locked.xacro'', Unreadable ''EACCES: permission denied''),
            (''/srv/public/broken.xacro'', Unreadable ''EIO: i/o error''),
            (''/srv/public/ok.xacro'', File ''<link name=\"ok\"/>'')]) (Suc 1) (Some ''main.xacro'') = Response 500 ''EACCES: permission denied''
 \<and> xacro_to_urdf (disk [(''/srv/public/main.xacro'', File (directive ''ok.xacro'' @ directive ''locked.xacro'')),
            (''/srv/public/main2.xacro'', File (directive ''locked.xacro'' @ directive ''ok.xacro'')),
            (''/srv/public/main3.xacro'', File (directive ''loop.xacro'' @ directive ''locked.xacro'')),
            (''/srv/public/main4.xacro'', File (directive ''locked.xacro'' @ directive ''broken.xacro'')),
            (''/srv/public/loop.xacro'', File (directive ''loop.xacro'')),
            (''/srv/public/locked.xacro'', Unreadable ''EACCES: permission denied''),
            (''/srv/public/broken.xacro'', Unreadable ''EIO: i/o error''),
            (''/srv/public/ok.xacro'', File ''<link name=\"ok\"/>'')]) (Suc 1) (Some ''main4.xacro'') = Response 500 ''EACCES: permission denied''"
proof -
  let ?D = "(disk [(''/srv/public/main.xacro'', File (directive ''ok.xacro'' @ directive ''locked.xacro'')),
            (''/srv/public/main2.xacro'', File (directive ''locked.xacro'' @ directive ''ok.xacro'')),
            (''/srv/public/main3.xacro'', File (directive ''loop.xacro'' @ directive ''locked.xacro'')),
            (''/srv/public/main4.xacro'', File (directive ''locked.xacro'' @ directive ''broken.xacro'')),
            (''/srv/public/loop.xacro'', File (directive ''loop.xacro'')),
            (''/srv/public/locked.xacro'', Unreadable ''EACCES: permission denied''),
            (''/srv/public/broken.xacro'', Unreadable ''EIO: i/o error''),
            (''/srv/public/ok.xacro'', File ''<link name=\"ok\"/>'')])"
  let ?dir = "\<lambda>rel. path_dirname ?D (path_resolve ?D (public_dir ?D) rel)"
  have t1: "directive_targets ?D (directive ''ok.xacro'' @ directive ''locked.xacro'') ''/srv/public'' ''/srv/public''
     = [''/srv/public/ok.xacro'', ''/srv/public/locked.xacro'']"
    by code_simp
  have u: "fs_lookup ?D ''/srv/public/locked.xacro'' = Unreadable ''EACCES: permission denied''"
    by code_simp
  have u2: "fs_lookup ?D ''/srv/public/broken.xacro'' = Unreadable ''EIO: i/o error''"
    by code_simp
  have in1: "''/srv/public/locked.xacro''
      \<in> set (directive_targets ?D (directive ''ok.xacro'' @ directive ''locked.xacro'') ''/srv/public'' ''/srv/public'')"
    unfolding t1 by simp
  have a: "\<exists>e'. processIncludes ?D 5 (directive ''ok.xacro'' @ directive ''locked.xacro'') ''/srv/public'' ''/srv/public'' = Inl e'"
    by (rule read_failure_aborts [where E = ?D and workingDir = "''/srv/public''" and rootDir = "''/srv/public''"
          and t = "''/srv/public/locked.xacro''"
          and content = "directive ''ok.xacro'' @ directive ''locked.xacro''"
          and msg = "''EACCES: permission denied''" and stack = 5
          and fileRelativePath = "[]" and earlier = "[]" and later = "[]" and filename = "[]"
          and body = "[]" and e = StackOverflow, THEN conjunct1, THEN mp])
       (intro conjI in1 u)
  have n1: "''/srv/public/main2.xacro''
      \<in> set (directive_targets ?D (''<a/>'' @ directive ''main2.xacro'') ''/srv/public'' ''/srv/public'')"
    by code_simp
  have n2: "fs_lookup ?D ''/srv/public/main2.xacro'' = File (directive ''locked.xacro'' @ directive ''ok.xacro'')"
    by code_simp
  have n3: "processIncludes ?D 1 (stripped (directive ''locked.xacro'' @ directive ''ok.xacro''))
      (path_dirname ?D ''/srv/public/main2.xacro'') ''/srv/public''
      = Inl (ReadFailure ''EACCES: permission denied'')"
    by code_simp
  have b: "\<exists>e'. processIncludes ?D (Suc 1) (''<a/>'' @ directive ''main2.xacro'') ''/srv/public'' ''/srv/public'' = Inl e'"
    by (rule read_failure_aborts [where E = ?D and workingDir = "''/srv/public''" and rootDir = "''/srv/public''"
          and t = "''/srv/public/main2.xacro''"
          and content = "''<a/>'' @ directive ''main2.xacro''"
          and body = "directive ''locked.xacro'' @ directive ''ok.xacro''"
          and e = "ReadFailure ''EACCES: permission denied''"
          and msg = "[]" and stack = 1 and fileRelativePath = "[]"
          and earlier = "[]" and later = "[]" and filename = "[]",
          THEN conjunct2, THEN conjunct1, THEN mp])
       (intro conjI n1 n2 n3)
  have f1: "directive_filenames (directive ''ok.xacro'' @ directive ''locked.xacro'')
      = [''ok.xacro''] @ ''locked.xacro'' # []"
    by code_simp
  have r1: "returns (include_result ?D 1 ''/srv/public'' ''/srv/public'' ''ok.xacro'')"
    by code_simp
  have r1': "\<forall>f \<in> set [''ok.xacro'']. returns (include_result ?D 1 ''/srv/public'' ''/srv/public'' f)"
    using r1 by simp
  have r0: "\<forall>f \<in> set []. returns (include_result ?D n ''/srv/public'' ''/srv/public'' f)" for n
    by simp
  have tl: "fs_lookup ?D (include_target ?D ''/srv/public'' ''/srv/public'' ''locked.xacro'') = Unreadable ''EACCES: permission denied''"
    by code_simp
  have c: "processIncludes ?D (Suc 1) (directive ''ok.xacro'' @ directive ''locked.xacro'') ''/srv/public'' ''/srv/public''
     = Inl (ReadFailure ''EACCES: permission denied'')"
    by (rule read_failure_aborts [where E = ?D and workingDir = "''/srv/public''" and rootDir = "''/srv/public''"
          and content = "directive ''ok.xacro'' @ directive ''locked.xacro''"
          and earlier = "[''ok.xacro'']" and filename = "''locked.xacro''" and later = "[]"
          and msg = "''EACCES: permission denied''" and stack = 1
          and t = "[]" and body = "[]" and e = StackOverflow and fileRelativePath = "[]",
          THEN conjunct2, THEN conjunct2, THEN conjunct2, THEN conjunct1, THEN mp])
       (intro conjI f1 r1' tl)
  have f3: "directive_filenames (directive ''loop.xacro'' @ directive ''locked.xacro'')
      = [] @ ''loop.xacro'' # [''locked.xacro'']"
    by code_simp
  have l3: "include_result ?D 4 ''/srv/public'' ''/srv/public'' ''loop.xacro'' = Inl StackOverflow"
    by code_simp
  have d: "processIncludes ?D (Suc 4) (directive ''loop.xacro'' @ directive ''locked.xacro'') ''/srv/public'' ''/srv/public''
     = Inl StackOverflow"
    by (rule read_failure_aborts [where E = ?D and workingDir = "''/srv/public''" and rootDir = "''/srv/public''"
          and content = "directive ''loop.xacro'' @ directive ''locked.xacro''"
          and earlier = "[]" and filename = "''loop.xacro''" and later = "[''locked.xacro'']"
          and e = StackOverflow and stack = 4
          and t = "[]" and body = "[]" and msg = "[]" and fileRelativePath = "[]",
          THEN conjunct2, THEN conjunct2, THEN conjunct1, THEN mp])
       (intro conjI f3 r0 l3)
  have f4: "directive_filenames (directive ''locked.xacro'' @ directive ''broken.xacro'')
      = [] @ ''locked.xacro'' # [''broken.xacro'']"
    by code_simp
  have g: "processIncludes ?D (Suc 1) (directive ''locked.xacro'' @ directive ''broken.xacro'') ''/srv/public'' ''/srv/public''
     = Inl (ReadFailure ''EACCES: permission denied'')"
    by (rule read_failure_aborts [where E = ?D and workingDir = "''/srv/public''" and rootDir = "''/srv/public''"
          and content = "directive ''locked.xacro'' @ directive ''broken.xacro''"
          and earlier = "[]" and filename = "''locked.xacro''" and later = "[''broken.xacro'']"
          and msg = "''EACCES: permission denied''" and stack = 1
          and t = "[]" and body = "[]" and e = StackOverflow and fileRelativePath = "[]",
          THEN conjunct2, THEN conjunct2, THEN conjunct2, THEN conjunct1, THEN mp])
       (intro conjI f4 r0 tl)
  have m1: "fs_lookup ?D (path_resolve ?D (public_dir ?D) ''main.xacro'')
      = File (directive ''ok.xacro'' @ directive ''locked.xacro'')"
    by code_simp
  have m2: "fs_lookup ?D (path_resolve ?D (public_dir ?D) ''main2.xacro'')
      = File (directive ''locked.xacro'' @ directive ''ok.xacro'')"
    by code_simp
  have m3: "fs_lookup ?D (path_resolve ?D (public_dir ?D) ''main3.xacro'')
      = File (directive ''loop.xacro'' @ directive ''locked.xacro'')"
    by code_simp
  have m4: "fs_lookup ?D (path_resolve ?D (public_dir ?D) ''main4.xacro'')
      = File (directive ''locked.xacro'' @ directive ''broken.xacro'')"
    by code_simp
  have ne: "''main.xacro'' \<noteq> []" "''main2.xacro'' \<noteq> []" "''main3.xacro'' \<noteq> []" "''main4.xacro'' \<noteq> []"
    by simp_all
  have in2: "''/srv/public/locked.xacro''
      \<in> set (directive_targets ?D (directive ''locked.xacro'' @ directive ''ok.xacro'')
                (?dir ''main2.xacro'') (public_dir ?D))"
    by code_simp
  have h: "\<exists>e'. xacro_to_urdf ?D 5 (Some ''main2.xacro'') = Response 500 (message e')"
    by (rule read_failure_aborts [where E = ?D and workingDir = "''/srv/public''" and rootDir = "''/srv/public''"
          and t = "''/srv/public/locked.xacro''"
          and fileRelativePath = "''main2.xacro''"
          and content = "directive ''locked.xacro'' @ directive ''ok.xacro''"
          and msg = "''EACCES: permission denied''" and stack = 5
          and earlier = "[]" and later = "[]" and filename = "[]" and body = "[]" and e = StackOverflow,
          THEN conjunct2, THEN conjunct2, THEN conjunct2, THEN conjunct2, THEN conjunct1, THEN mp])
       (intro conjI ne(2) m2 in2 u)
  have r0': "\<forall>f \<in> set []. returns (include_result ?D n (?dir rel) (public_dir ?D) f)" for n rel
    by simp
  have l3': "include_result ?D 4 (?dir ''main3.xacro'') (public_dir ?D) ''loop.xacro'' = Inl StackOverflow"
    by code_simp
  have "xacro_to_urdf ?D (Suc 4) (Some ''main3.xacro'') = Response 500 (message StackOverflow)"
    by (rule read_failure_aborts [where E = ?D and workingDir = "''/srv/public''" and rootDir = "''/srv/public''"
          and fileRelativePath = "''main3.xacro''"
          and content = "directive ''loop.xacro'' @ directive ''locked.xacro''"
          and earlier = "[]" and filename = "''loop.xacro''" and later = "[''locked.xacro'']"
          and e = StackOverflow and stack = 4
          and t = "[]" and body = "[]" and msg = "[]",
          THEN conjunct2, THEN conjunct2, THEN conjunct2, THEN conjunct2, THEN conjunct2,
          THEN conjunct1, THEN mp])
       (intro conjI ne(3) m3 f3 r0' l3')
  then have i: "xacro_to_urdf ?D (Suc 4) (Some ''main3.xacro'') = Response 500 ''Maximum call stack size exceeded''"
    by (simp only: message_def error.case)
  have "returns (include_result ?D 1 (?dir ''main.xacro'') (public_dir ?D) ''ok.xacro'')"
    by code_simp
  then have r1'': "\<forall>f \<in> set [''ok.xacro'']. returns (include_result ?D 1 (?dir ''main.xacro'') (public_dir ?D) f)"
    by simp
  have tl1: "fs_lookup ?D (include_target ?D (?dir ''main.xacro'') (public_dir ?D) ''locked.xacro'')
      = Unreadable ''EACCES: permission denied''"
    by code_simp
  have tl4: "fs_lookup ?D (include_target ?D (?dir ''main4.xacro'') (public_dir ?D) ''locked.xacro'')
      = Unreadable ''EACCES: permission denied''"
    by code_simp
  have j: "xacro_to_urdf ?D (Suc 1) (Some ''main.xacro'') = Response 500 ''EACCES: permission denied''"
    by (rule read_failure_aborts [where E = ?D and workingDir = "''/srv/public''" and rootDir = "''/srv/public''"
          and fileRelativePath = "''main.xacro''"
          and content = "directive ''ok.xacro'' @ directive ''locked.xacro''"
          and earlier = "[''ok.xacro'']" and filename = "''locked.xacro''" and later = "[]"
          and msg = "''EACCES: permission denied''" and stack = 1
          and t = "[]" and body = "[]" and e = StackOverflow,
          THEN conjunct2, THEN conjunct2, THEN conjunct2, THEN conjunct2, THEN conjunct2,
          THEN conjunct2, THEN mp])
       (intro conjI ne(1) m1 f1 r1'' tl1)
  have k: "xacro_to_urdf ?D (Suc 1) (Some ''main4.xacro'') = Response 500 ''EACCES: permission denied''"
    by (rule read_failure_aborts [where E = ?D and workingDir = "''/srv/public''" and rootDir = "''/srv/public''"
          and fileRelativePath = "''main4.xacro''"
          and content = "directive ''locked.xacro'' @ directive ''broken.xacro''"
          and earlier = "[]" and filename = "''locked.xacro''" and later = "[''broken.xacro'']"
          and msg = "''EACCES: permission denied''" and stack = 1
          and t = "[]" and body = "[]" and e = StackOverflow,
          THEN conjunct2, THEN conjunct2, THEN conjunct2, THEN conjunct2, THEN conjunct2,
          THEN conjunct2, THEN mp])
       (intro conjI ne(4) m4 f4 r0' tl4)
  from t1 u a n2 b f1 r1 c f3 l3 d f4 u2 g h i j k show ?thesis
    by (intro conjI)
qed

text \<open>
  Claim C5 as stated fails: a sibling directive that resolves on its own is lost with
  the document when another directive's file cannot be read, whether the sibling stands
  before or behind it; the endpoint answers with the error alone.
\<close>

theorem read_failure_aborts_siblings_counterexample:
  "processIncludes (disk [(''/srv/public/main.xacro'', File (directive ''ok.xacro'' @ directive ''locked.xacro'')),
            (''/srv/public/main2.xacro'', File (directive ''locked.xacro'' @ directive ''ok.xacro'')),
            (''/srv/public/locked.xacro'', Unreadable ''EACCES: permission denied''),
            (''/srv/public/ok.xacro'', File ''<link name=\"ok\"/>'')]) 2 (directive ''ok.xacro'') ''/srv/public'' ''/srv/public''
     = Inr ''<link name=\"ok\"/>''
 \<and> processIncludes (disk [(''/srv/public/main.xacro'', File (directive ''ok.xacro'' @ directive ''locked.xacro'')),
            (''/srv/public/main2.xacro'', File (directive ''locked.xacro'' @ directive ''ok.xacro'')),
            (''/srv/public/locked.xacro'', Unreadable ''EACCES: permission denied''),
            (''/srv/public/ok.xacro'', File ''<link name=\"ok\"/>'')]) 2 (directive ''ok.xacro'' @ directive ''locked.xacro'') ''/srv/public'' ''/srv/public''
     = Inl (ReadFailure ''EACCES: permission denied'')
 \<and> processIncludes (disk [(''/srv/public/main.xacro'', File (directive ''ok.xacro'' @ directive ''locked.xacro'')),
            (''/srv/public/main2.xacro'', File (directive ''locked.xacro'' @ directive ''ok.xacro'')),
            (''/srv/public/locked.xacro'', Unreadable ''EACCES: permission denied''),
            (''/srv/public/ok.xacro'', File ''<link name=\"ok\"/>'')]) 2 (directive ''locked.xacro'' @ directive ''ok.xacro'') ''/srv/public'' ''/srv/public''
     = Inl (ReadFailure ''EACCES: permission denied'')
 \<and> xacro_to_urdf (disk [(''/srv/public/main.xacro'', File (directive ''ok.xacro'' @ directive ''locked.xacro'')),
            (''/srv/public/main2.xacro'', File (directive ''locked.xacro'' @ directive ''ok.xacro'')),
            (''/srv/public/locked.xacro'', Unreadable ''EACCES: permission denied''),
            (''/srv/public/ok.xacro'', File ''<link name=\"ok\"/>'')]) 2 (Some ''main.xacro'') = Response 500 ''EACCES: permission denied''
 \<and> xacro_to_urdf (disk [(''/srv/public/main.xacro'', File (directive ''ok.xacro'' @ directive ''locked.xacro'')),
            (''/srv/public/main2.xacro'', File (directive ''locked.xacro'' @ directive ''ok.xacro'')),
            (''/srv/public/locked.xacro'', Unreadable ''EACCES: permission denied''),
            (''/srv/public/ok.xacro'', File ''<link name=\"ok\"/>'')]) 2 (Some ''main2.xacro'') = Response 500 ''EACCES: permission denied''"
  by code_simp

subsection \<open>The path of an included file\<close>












subsection \<open>What is stripped from an included file\<close>




























end
